theory Spec2Isabelle
  imports Complex_Main "HOL-Library.Log_Nat" "HOL-Library.Multiset"
begin

section \<open>Python values\<close>

text \<open>
  The script \<^verbatim>\<open>main.py\<close> polls a weather API, stores one row per poll and exports the
  ten newest rows to a spreadsheet.  Every exception the script can raise is a value
  of \<open>py_error\<close>; a computation that may raise returns \<open>py_error + 'a\<close>, with \<open>Inl\<close>
  for the exception.

  Python strings are modelled by their UTF-8 bytes.  The script only compares,
  concatenates and lower-cases strings, and never measures or slices them, so nothing
  depends on the difference between bytes and code points.
\<close>

datatype py_error =
    KeyError | TypeError | IndexError | OverflowError | ValueError
  | ClientError | ContentTypeError | JSONDecodeError | StatementError | EOFError

definition bind_err :: "py_error + 'a \<Rightarrow> ('a \<Rightarrow> py_error + 'b) \<Rightarrow> py_error + 'b" where
  "bind_err m f = (case m of Inl e \<Rightarrow> Inl e | Inr v \<Rightarrow> f v)"

text \<open>
  The value \<^verbatim>\<open>response.json()\<close> returns.  A JSON object is the Python dict built by
  the parser: an association list in insertion order whose keys are distinct.  A JSON
  number with a fraction or an exponent is a Python float (\<open>JFloat\<close>, holding the exact
  rational value of the binary64 number), any other number is an unbounded Python int.
  The non-finite floats, which the parser returns for \<^verbatim>\<open>NaN\<close>, \<^verbatim>\<open>Infinity\<close> and a literal
  beyond the float range, are not modelled, and the two zeros are one: no operation
  of the script tells them apart.
\<close>

datatype json =
    JNull | JBool bool | JInt int | JFloat rat | JStr string
  | JArr "json list" | JObj "(string \<times> json) list"

subsection \<open>Binary64 arithmetic\<close>

text \<open>
  A Python float is an IEEE 754 binary64 number: 53 significant bits, the least
  quantum being \<open>2 powi - 1074\<close>.  Every float operation returns the exact result
  rounded to the nearest such number, ties to the even significand.  \<open>expo x\<close> is the
  binary exponent of \<open>x\<close>, that is \<open>\<lfloor>log 2 \<bar>x\<bar>\<rfloor>\<close>, computed from the bit lengths of
  numerator and denominator.
\<close>

definition round_half_even :: "rat \<Rightarrow> int" where
  "round_half_even q =
     (let f = \<lfloor>q\<rfloor>; r = q - of_int f
      in if r < 1 / 2 then f else if 1 / 2 < r then f + 1 else if even f then f else f + 1)"

definition expo :: "rat \<Rightarrow> int" where
  "expo x =
     (case quotient_of \<bar>x\<bar> of (p, q) \<Rightarrow>
        let k = bitlen p - bitlen q in if 2 powi k \<le> \<bar>x\<bar> then k else k - 1)"

definition quantum :: "rat \<Rightarrow> int" where
  "quantum x = max (expo x - 52) (- 1074)"

definition rnd :: "rat \<Rightarrow> rat" where
  "rnd x =
     (if x = 0 then 0
      else of_int (round_half_even (x / 2 powi quantum x)) * 2 powi quantum x)"

text \<open>The finite binary64 numbers are the fixed points of the rounding below the overflow bound.\<close>

definition is_double :: "rat \<Rightarrow> bool" where
  "is_double x \<longleftrightarrow> rnd x = x \<and> \<bar>x\<bar> < 2 ^ 1024"

text \<open>
  \<^verbatim>\<open>a + b\<close> and \<^verbatim>\<open>a * b\<close> on floats.  Neither operation of the script can overflow on
  a finite operand: adding 22.5 to the largest float rounds back to it, and 0.75006 is
  below one (lemmas \<open>float_add_finite\<close> and \<open>float_mul_finite\<close> at the end).
\<close>

definition float_add :: "rat \<Rightarrow> rat \<Rightarrow> rat" where
  "float_add a b = rnd (a + b)"

definition float_mul :: "rat \<Rightarrow> rat \<Rightarrow> rat" where
  "float_mul a b = rnd (a * b)"

text \<open>
  \<^verbatim>\<open>int(x)\<close> on a float truncates towards zero.  C's \<^verbatim>\<open>fmod\<close> is exact and its result
  has the sign of the dividend.  Python's \<^verbatim>\<open>a % b\<close> on floats is \<^verbatim>\<open>fmod\<close> followed,
  when the remainder is non-zero and its sign differs from the divisor's, by the float
  addition \<^verbatim>\<open>mod += b\<close> (CPython's \<^verbatim>\<open>float_rem\<close>), which rounds.
\<close>

definition py_int :: "rat \<Rightarrow> int" where
  "py_int x = (if 0 \<le> x then \<lfloor>x\<rfloor> else \<lceil>x\<rceil>)"

definition fmod :: "rat \<Rightarrow> rat \<Rightarrow> rat" where
  "fmod a b = a - b * of_int (py_int (a / b))"

definition float_mod :: "rat \<Rightarrow> rat \<Rightarrow> rat" where
  "float_mod a b =
     (let m = fmod a b
      in if m \<noteq> 0 \<and> ((b < 0) \<noteq> (m < 0)) then float_add m b else m)"

text \<open>
  An int operand of a float operation is converted first; the conversion rounds an int
  of more than 53 bits and raises \<^verbatim>\<open>OverflowError\<close> beyond the float range.  A bool is
  an int (0 or 1).  Any other operand raises \<^verbatim>\<open>TypeError\<close>.
\<close>

definition float_of_int :: "int \<Rightarrow> py_error + rat" where
  "float_of_int i =
     (let r = rnd (of_int i) in if 2 ^ 1024 \<le> \<bar>r\<bar> then Inl OverflowError else Inr r)"

fun as_float :: "json \<Rightarrow> py_error + rat" where
  "as_float (JFloat x) = Inr x"
| "as_float (JInt i) = float_of_int i"
| "as_float (JBool b) = float_of_int (if b then 1 else 0)"
| "as_float _ = Inl TypeError"

text \<open>\<^verbatim>\<open>v > 0\<close>: ints are compared exactly, floats by value.\<close>

fun greater_zero :: "json \<Rightarrow> py_error + bool" where
  "greater_zero (JFloat x) = Inr (0 < x)"
| "greater_zero (JInt i) = Inr (0 < i)"
| "greater_zero (JBool b) = Inr b"
| "greater_zero _ = Inl TypeError"

subsection \<open>Subscripts\<close>

text \<open>
  \<^verbatim>\<open>xs[i]\<close> on a list: a negative index counts from the end, an index outside the list
  raises \<^verbatim>\<open>IndexError\<close>.
\<close>

definition list_getitem :: "'a list \<Rightarrow> int \<Rightarrow> py_error + 'a" where
  "list_getitem xs i =
     (let j = (if i < 0 then i + int (length xs) else i)
      in if j < 0 \<or> int (length xs) \<le> j then Inl IndexError else Inr (xs ! nat j))"

text \<open>The first character of a string: its lead byte and the continuation bytes after it.\<close>

definition first_char :: "string \<Rightarrow> string" where
  "first_char s = take 1 s @ takeWhile (\<lambda>c. (128::nat) \<le> of_char c \<and> of_char c < (192::nat)) (drop 1 s)"

text \<open>\<^verbatim>\<open>v["key"]\<close> and \<^verbatim>\<open>v[0]\<close> on a parsed JSON value.\<close>

fun getitem_key :: "json \<Rightarrow> string \<Rightarrow> py_error + json" where
  "getitem_key (JObj kvs) k = (case map_of kvs k of None \<Rightarrow> Inl KeyError | Some v \<Rightarrow> Inr v)"
| "getitem_key _ k = Inl TypeError"

fun getitem_0 :: "json \<Rightarrow> py_error + json" where
  "getitem_0 (JArr xs) = list_getitem xs 0"
| "getitem_0 (JStr s) = (if s = [] then Inl IndexError else Inr (JStr (first_char s)))"
| "getitem_0 (JObj kvs) = Inl KeyError"
| "getitem_0 _ = Inl TypeError"

section \<open>The weather fetcher\<close>

text \<open>
  The eight compass labels, from north clockwise.  The source writes them in Russian:
  the letters U+0421 (north), U+0412 (east), U+042E (south) and U+0417 (west), alone or
  in pairs; here in UTF-8.
\<close>

definition wind_direction_map :: "string list" where
  "wind_direction_map =
     [[CHR 0xD0, CHR 0xA1],
      [CHR 0xD0, CHR 0xA1, CHR 0xD0, CHR 0x92],
      [CHR 0xD0, CHR 0x92],
      [CHR 0xD0, CHR 0xAE, CHR 0xD0, CHR 0x92],
      [CHR 0xD0, CHR 0xAE],
      [CHR 0xD0, CHR 0xAE, CHR 0xD0, CHR 0x97],
      [CHR 0xD0, CHR 0x97],
      [CHR 0xD0, CHR 0xA1, CHR 0xD0, CHR 0x97]]"

text \<open>\<^verbatim>\<open>int((winddirection + 22.5) % 360) // 45\<close>, on the float value of the operand.\<close>

definition compass_index :: "rat \<Rightarrow> int" where
  "compass_index wd = py_int (float_mod (float_add wd (45 / 2)) 360) div 45"

definition wind_direction_of :: "json \<Rightarrow> py_error + string" where
  "wind_direction_of v =
     bind_err (as_float v) (\<lambda>wd. list_getitem wind_direction_map (compass_index wd))"

subsection \<open>The request\<close>

text \<open>
  \<^verbatim>\<open>urlencode\<close> renders every value with \<^verbatim>\<open>str\<close> and quotes key and value with
  \<^verbatim>\<open>quote_plus\<close>: letters, digits and \<^verbatim>\<open>_.-~\<close> stay, a space becomes \<^verbatim>\<open>+\<close>, any other
  byte becomes \<^verbatim>\<open>%XX\<close>.  The two coordinates are float constants whose \<^verbatim>\<open>str\<close> is the
  decimal text of the source, which is what a \<open>Number\<close> holds.
\<close>

datatype param = Text string | Number string | Boolean bool

fun py_str :: "param \<Rightarrow> string" where
  "py_str (Text s) = s"
| "py_str (Number s) = s"
| "py_str (Boolean b) = (if b then ''True'' else ''False'')"

definition unreserved :: "char \<Rightarrow> bool" where
  "unreserved c \<longleftrightarrow>
     c \<in> set ''abcdefghijklmnopqrstuvwxyzABCDEFGHIJKLMNOPQRSTUVWXYZ0123456789_.-~''"

definition hex_digit :: "nat \<Rightarrow> char" where
  "hex_digit n = ''0123456789ABCDEF'' ! (n mod 16)"

definition quote_char :: "char \<Rightarrow> string" where
  "quote_char c =
     (if unreserved c then [c]
      else if c = CHR '' '' then ''+''
      else [CHR ''%'', hex_digit (of_char c div 16), hex_digit (of_char c)])"

definition quote_plus :: "string \<Rightarrow> string" where
  "quote_plus s = concat (map quote_char s)"

fun join :: "string \<Rightarrow> string list \<Rightarrow> string" where
  "join sep [] = []"
| "join sep [x] = x"
| "join sep (x # y # ys) = x @ sep @ join sep (y # ys)"

definition urlencode :: "(string \<times> param) list \<Rightarrow> string" where
  "urlencode ps = join ''&'' (map (\<lambda>(k, v). quote_plus k @ ''='' @ quote_plus (py_str v)) ps)"

definition SKOLTECH_LATITUDE :: param where
  "SKOLTECH_LATITUDE = Number ''55.69782222''"

definition SKOLTECH_LONGITUDE :: param where
  "SKOLTECH_LONGITUDE = Number ''37.36156389''"

definition base_url :: string where
  "base_url = ''https://api.open-meteo.com/v1/forecast''"

definition params :: "(string \<times> param) list" where
  "params =
     [(''latitude'', SKOLTECH_LATITUDE),
      (''longitude'', SKOLTECH_LONGITUDE),
      (''current_weather'', Boolean True),
      (''hourly'', Text (''temperature_2m,relativehumidity_2m,windspeed_10m,''
                         @ ''winddirection_10m,pressure_msl,precipitation''))]"

definition url :: string where
  "url = base_url @ ''?'' @ urlencode params"

subsection \<open>The network\<close>

text \<open>
  The network is the environment of the script.  A GET either raises (\<open>Inl\<close>) or
  delivers a response; \<open>payload\<close> is what \<^verbatim>\<open>await response.json()\<close> does with it: it
  raises, or returns the parsed body.  \<open>sent\<close> logs the URLs requested, \<open>replies\<close> are
  the outcomes of the requests to come, in order; a request with no reply left fails
  to connect.
\<close>

record response =
  status :: nat
  payload :: "py_error + json"

record network =
  sent :: "string list"
  replies :: "(py_error + response) list"

definition session_get :: "string \<Rightarrow> network \<Rightarrow> (py_error + response) \<times> network" where
  "session_get u net =
     ((case replies net of [] \<Rightarrow> Inl ClientError | r # _ \<Rightarrow> r),
      net\<lparr>sent := sent net @ [u], replies := tl (replies net)\<rparr>)"

subsection \<open>From the response to the reading\<close>

text \<open>
  The dict the fetcher returns and the columns of the table have the same six names.
  In the dict the temperature, the wind speed and the amount are the JSON values as
  read and the pressure is a float; in a row all four are what the database holds.
\<close>

record ('v, 'p) reading =
  temperature :: 'v
  wind_speed :: 'v
  wind_direction :: string
  pressure :: 'p
  precipitation_type :: string
  precipitation_amount :: 'v

type_synonym weather = "(json, rat) reading"

text \<open>The float that the literal \<^verbatim>\<open>0.75006\<close> denotes.\<close>

definition hPa_to_mmHg :: rat where
  "hPa_to_mmHg = rnd (75006 / 100000)"

text \<open>
  The body of \<^verbatim>\<open>get_weather_data\<close> once the JSON is there, in the source's order of
  evaluation: the first subscript or operation that raises ends it.
\<close>

definition read_weather :: "json \<Rightarrow> py_error + weather" where
  "read_weather data =
     bind_err (getitem_key data ''current_weather'') (\<lambda>current.
     bind_err (getitem_key data ''hourly'') (\<lambda>hourly.
     bind_err (getitem_key current ''winddirection'') (\<lambda>degrees.
     bind_err (wind_direction_of degrees) (\<lambda>direction.
     bind_err (getitem_key current ''temperature'') (\<lambda>temp.
     bind_err (getitem_key current ''windspeed'') (\<lambda>speed.
     bind_err (getitem_key hourly ''pressure_msl'') (\<lambda>series.
     bind_err (getitem_0 series) (\<lambda>hPa.
     bind_err (as_float hPa) (\<lambda>p.
     bind_err (getitem_key hourly ''precipitation'') (\<lambda>rain.
     bind_err (getitem_0 rain) (\<lambda>amount.
     bind_err (greater_zero amount) (\<lambda>wet.
       Inr \<lparr>temperature = temp,
            wind_speed = speed,
            wind_direction = direction,
            pressure = float_mul p hPa_to_mmHg,
            precipitation_type = (if wet then ''rain'' else ''none''),
            precipitation_amount = amount\<rparr>))))))))))))"

definition get_weather_data :: "network \<Rightarrow> (py_error + weather) \<times> network" where
  "get_weather_data net =
     (case session_get url net of
        (Inl e, net') \<Rightarrow> (Inl e, net')
      | (Inr r, net') \<Rightarrow> (bind_err (payload r) read_weather, net'))"

section \<open>The reading store\<close>

text \<open>
  A row of table \<^verbatim>\<open>weather_data\<close>: the six columns, the key the database assigns and
  the UTC time of the insert, a point in time counted in microseconds.  The four
  \<^verbatim>\<open>Float\<close> columns hold a float or \<^verbatim>\<open>NULL\<close>.
\<close>

record WeatherData = "(rat option, rat option) reading" +
  row_id :: nat
  timestamp :: int

text \<open>
  On the insert a \<^verbatim>\<open>Float\<close> column binds \<^verbatim>\<open>float(value)\<close>, and \<^verbatim>\<open>None\<close> as \<^verbatim>\<open>NULL\<close>.
  \<^verbatim>\<open>float\<close> converts an int or a bool as the float operations do, parses a string, and
  raises \<^verbatim>\<open>TypeError\<close> on a list or a dict.  The parser of strings is Python's and a
  parameter here: \<open>float_of_str s\<close> is the float the string denotes, or \<open>None\<close> where
  \<^verbatim>\<open>float\<close> raises \<^verbatim>\<open>ValueError\<close>; a string that denotes a non-finite float is, like
  the non-finite numbers of the response, not modelled.  An exception raised while a
  value is bound reaches the caller as \<^verbatim>\<open>StatementError\<close>.
\<close>

definition to_float :: "(string \<Rightarrow> rat option) \<Rightarrow> json \<Rightarrow> py_error + rat option" where
  "to_float float_of_str v =
     (case v of
        JNull \<Rightarrow> Inr None
      | JStr s \<Rightarrow> (case float_of_str s of None \<Rightarrow> Inl ValueError | Some x \<Rightarrow> Inr (Some x))
      | JArr xs \<Rightarrow> Inl TypeError
      | JObj kvs \<Rightarrow> Inl TypeError
      | _ \<Rightarrow> bind_err (as_float v) (\<lambda>x. Inr (Some x)))"

definition next_id :: "WeatherData list \<Rightarrow> nat" where
  "next_id rows = Suc (fold max (map row_id rows) 0)"

text \<open>
  \<^verbatim>\<open>save_to_db\<close>: the commit inserts the row, or raises \<^verbatim>\<open>StatementError\<close> when a value
  cannot be bound, and then nothing is stored.  Any other failure of the database,
  like one of the working directory below, is the environment's and not modelled.
\<close>

definition save_to_db ::
  "(string \<Rightarrow> rat option) \<Rightarrow> int \<Rightarrow> weather \<Rightarrow> WeatherData list \<Rightarrow> py_error + WeatherData list"
where
  "save_to_db float_of_str utcnow data rows =
     (case (to_float float_of_str (temperature data),
            to_float float_of_str (wind_speed data),
            to_float float_of_str (precipitation_amount data)) of
        (Inr t, Inr s, Inr a) \<Rightarrow>
          Inr (rows @
            [\<lparr>temperature = t, wind_speed = s, wind_direction = wind_direction data,
              pressure = Some (pressure data),
              precipitation_type = precipitation_type data, precipitation_amount = a,
              row_id = next_id rows, timestamp = utcnow\<rparr>])
      | _ \<Rightarrow> Inl StatementError)"

text \<open>
  \<^verbatim>\<open>query(WeatherData).order_by(WeatherData.timestamp.desc()).limit(n).all()\<close>.  The
  database leaves the order of rows with equal timestamps open; here a row goes before
  the rows that are not newer than it.
\<close>

fun insert_desc :: "WeatherData \<Rightarrow> WeatherData list \<Rightarrow> WeatherData list" where
  "insert_desc r [] = [r]"
| "insert_desc r (x # xs) =
     (if timestamp x \<le> timestamp r then r # x # xs else x # insert_desc r xs)"

definition order_by_timestamp_desc :: "WeatherData list \<Rightarrow> WeatherData list" where
  "order_by_timestamp_desc rows = foldr insert_desc rows []"

definition limit :: "nat \<Rightarrow> WeatherData list \<Rightarrow> WeatherData list" where
  "limit n rows = take n rows"

definition most_recent :: "nat \<Rightarrow> WeatherData list \<Rightarrow> WeatherData list" where
  "most_recent n rows = limit n (order_by_timestamp_desc rows)"

section \<open>The exporter\<close>

text \<open>
  What the script prints, by message rather than by its Russian text, and the local
  wall-clock time \<^verbatim>\<open>datetime.now()\<close> as its calendar fields.
\<close>

record local_time =
  year :: nat
  month :: nat
  day :: nat
  hour :: nat
  minute :: nat
  second :: nat

datatype message =
    Starting | Instructions | Prompt
  | Exported string | Shutting_down | Unknown_command
  | Saved local_time | Failed py_error

text \<open>
  \<^verbatim>\<open>strftime("%Y%m%d_%H%M%S")\<close>: the year in decimal, every other field in two digits.
\<close>

definition digit :: "nat \<Rightarrow> char" where
  "digit n = ''0123456789'' ! (n mod 10)"

fun decimal :: "nat \<Rightarrow> string" where
  "decimal n = (if n < 10 then [digit n] else decimal (n div 10) @ [digit n])"

declare decimal.simps [simp del]

definition two_digits :: "nat \<Rightarrow> string" where
  "two_digits n = [digit (n div 10), digit n]"

definition strftime :: "local_time \<Rightarrow> string" where
  "strftime t =
     decimal (year t) @ two_digits (month t) @ two_digits (day t) @ ''_''
     @ two_digits (hour t) @ two_digits (minute t) @ two_digits (second t)"

text \<open>
  The cells of the spreadsheet, and the dict the exporter builds from a row: the seven
  labels with the row's values, in the order of the source; a \<^verbatim>\<open>NULL\<close> is an empty cell.
  The degree sign of the second label is the two bytes C2 B0.
\<close>

datatype cell = CTime int | CFloat rat | CStr string | CEmpty

definition float_cell :: "rat option \<Rightarrow> cell" where
  "float_cell v = (case v of None \<Rightarrow> CEmpty | Some x \<Rightarrow> CFloat x)"

definition to_record :: "WeatherData \<Rightarrow> (string \<times> cell) list" where
  "to_record d =
     [(''Timestamp'', CTime (timestamp d)),
      (''Temperature ('' @ [CHR 0xC2, CHR 0xB0] @ ''C)'', float_cell (temperature d)),
      (''Wind Speed (m/s)'', float_cell (wind_speed d)),
      (''Wind Direction'', CStr (wind_direction d)),
      (''Pressure (mmHg)'', float_cell (pressure d)),
      (''Precipitation Type'', CStr (precipitation_type d)),
      (''Precipitation Amount (mm)'', float_cell (precipitation_amount d))]"

text \<open>
  \<^verbatim>\<open>pd.DataFrame(records)\<close> on a list of dicts: the columns are the keys of the dicts
  in the order of their first appearance, and a frame built from no dict has no column.
  A value a dict lacks is missing (\<open>None\<close>).
\<close>

record data_frame =
  columns :: "string list"
  body :: "cell option list list"

definition first_seen :: "string list \<Rightarrow> string list" where
  "first_seen ks = fold (\<lambda>k seen. if k \<in> set seen then seen else seen @ [k]) ks []"

definition DataFrame :: "(string \<times> cell) list list \<Rightarrow> data_frame" where
  "DataFrame records =
     (let cols = first_seen (concat (map (map fst) records))
      in \<lparr>columns = cols, body = map (\<lambda>r. map (map_of r) cols) records\<rparr>)"

text \<open>
  \<^verbatim>\<open>df.to_excel(filename, index=False)\<close> writes one header cell per column into row 0
  and one cell per value into the rows below; a sheet is the list of the cells written,
  each with its row and column.
\<close>

type_synonym sheet = "(nat \<times> nat \<times> cell) list"

definition to_excel :: "data_frame \<Rightarrow> sheet" where
  "to_excel df =
     map (\<lambda>(j, c). (0, j, CStr c)) (enumerate 0 (columns df))
     @ concat (map (\<lambda>(i, r).
         map (\<lambda>(j, v). (Suc i, j, case v of None \<Rightarrow> CEmpty | Some c \<Rightarrow> c)) (enumerate 0 r))
         (enumerate 0 (body df)))"

definition sheet_row :: "nat \<Rightarrow> sheet \<Rightarrow> cell list" where
  "sheet_row i sh = map (\<lambda>(r, j, v). v) (filter (\<lambda>(r, j, v). r = i) sh)"

text \<open>
  The state the script acts on: the table, the files of the working directory, the
  lines printed, and the exit status once the process has ended.  A Python function
  that ends without \<^verbatim>\<open>return\<close> returns \<^verbatim>\<open>None\<close>.
\<close>

record world =
  table :: "WeatherData list"
  files :: "string \<rightharpoonup> sheet"
  stdout :: "message list"
  exit_status :: "int option"

datatype py_value = PyNone | PyStr string

definition export_filename :: "local_time \<Rightarrow> string" where
  "export_filename now = ''weather_data_'' @ strftime now @ ''.xlsx''"

definition export_to_excel :: "local_time \<Rightarrow> world \<Rightarrow> py_value \<times> world" where
  "export_to_excel now w =
     (let data = most_recent 10 (table w);
          df = DataFrame (map to_record data);
          filename = export_filename now
      in (PyNone,
          w\<lparr>files := (files w)(filename \<mapsto> to_excel df),
            stdout := stdout w @ [Exported filename]\<rparr>))"

section \<open>The two loops\<close>

text \<open>
  One round of \<^verbatim>\<open>weather_loop\<close>: fetch, store and confirm, or print the exception of
  the fetch or of the insert; then the loop sleeps for 180 seconds.  A round takes the
  UTC time of the insert and the local time of the confirmation from the clock.
\<close>

definition weather_round ::
  "(string \<Rightarrow> rat option) \<Rightarrow> int \<times> local_time \<Rightarrow> network \<times> world \<Rightarrow> network \<times> world"
where
  "weather_round float_of_str clock s =
     (case get_weather_data (fst s) of
        (Inl e, net') \<Rightarrow> (net', (snd s)\<lparr>stdout := stdout (snd s) @ [Failed e]\<rparr>)
      | (Inr weather_data, net') \<Rightarrow>
          (case save_to_db float_of_str (fst clock) weather_data (table (snd s)) of
             Inl e \<Rightarrow> (net', (snd s)\<lparr>stdout := stdout (snd s) @ [Failed e]\<rparr>)
           | Inr stored \<Rightarrow>
               (net', (snd s)\<lparr>table := stored,
                              stdout := stdout (snd s) @ [Saved (snd clock)]\<rparr>)))"

definition weather_loop ::
  "(string \<Rightarrow> rat option) \<Rightarrow> (int \<times> local_time) list \<Rightarrow> network \<times> world \<Rightarrow> network \<times> world"
where
  "weather_loop float_of_str clocks s = fold (weather_round float_of_str) clocks s"

text \<open>
  \<^verbatim>\<open>str.lower\<close>.  Only the letters A to Z matter here.  A character outside ASCII
  lowers to text that has a character outside ASCII again, but for the Kelvin sign,
  which lowers to \<^verbatim>\<open>k\<close>; neither \<^verbatim>\<open>export\<close> nor \<^verbatim>\<open>exit\<close> has a \<^verbatim>\<open>k\<close>.  So a line with
  such a character is neither word after lowering, as here, where it is left as it is.
\<close>

definition lower_char :: "char \<Rightarrow> char" where
  "lower_char c =
     (case map_of (zip ''ABCDEFGHIJKLMNOPQRSTUVWXYZ'' ''abcdefghijklmnopqrstuvwxyz'') c of
        None \<Rightarrow> c
      | Some l \<Rightarrow> l)"

definition lower :: "string \<Rightarrow> string" where
  "lower s = map lower_char s"

text \<open>
  The branch \<^verbatim>\<open>handle_user_input\<close> takes on a line, as \<^verbatim>\<open>ainput\<close> returns it (without
  its newline); \<^verbatim>\<open>os._exit(0)\<close> ends the process with status 0.
\<close>

definition handle_command :: "local_time \<Rightarrow> string \<Rightarrow> world \<Rightarrow> world" where
  "handle_command now command w =
     (if lower command = ''export'' then snd (export_to_excel now w)
      else if lower command = ''exit''
        then w\<lparr>stdout := stdout w @ [Shutting_down], exit_status := Some 0\<rparr>
      else w\<lparr>stdout := stdout w @ [Unknown_command]\<rparr>)"

text \<open>
  The loop over the lines typed so far, each with the local time at which it is
  handled.  The loop prompts before it reads, and nothing runs after the exit.
\<close>

fun command_loop :: "(local_time \<times> string) list \<Rightarrow> world \<Rightarrow> world" where
  "command_loop [] w = w\<lparr>stdout := stdout w @ [Prompt]\<rparr>"
| "command_loop ((now, command) # rest) w =
     (let w' = handle_command now command (w\<lparr>stdout := stdout w @ [Prompt]\<rparr>)
      in if exit_status w' = None then command_loop rest w' else w')"

definition handle_user_input :: "(local_time \<times> string) list \<Rightarrow> world \<Rightarrow> world" where
  "handle_user_input lines w = command_loop lines (w\<lparr>stdout := stdout w @ [Instructions]\<rparr>)"

section \<open>The specification's formulas\<close>

text \<open>
  \<open>floor_mod x m\<close> is \<open>x mod m\<close> on the rationals, and the specification's compass
  index is \<open>\<lfloor>((degrees + 22.5) mod 360) / 45\<rfloor>\<close>, in exact arithmetic.
\<close>

definition floor_mod :: "rat \<Rightarrow> rat \<Rightarrow> rat" where
  "floor_mod x m = x - m * of_int \<lfloor>x / m\<rfloor>"

definition spec_compass_index :: "rat \<Rightarrow> int" where
  "spec_compass_index degrees = \<lfloor>floor_mod (degrees + 45 / 2) 360 / 45\<rfloor>"

text \<open>
  The number a JSON value stands for, and the specification's rule for an amount and
  a kind of precipitation: the amount is a number, and the kind is \<^verbatim>\<open>rain\<close> if and only
  if the amount is above zero, \<^verbatim>\<open>none\<close> otherwise.
\<close>

definition num_value :: "json \<Rightarrow> rat option" where
  "num_value v =
     (case v of JFloat x \<Rightarrow> Some x | JInt i \<Rightarrow> Some (of_int i)
      | JBool b \<Rightarrow> Some (if b then 1 else 0) | _ \<Rightarrow> None)"

definition rain_rule :: "rat option \<Rightarrow> string \<Rightarrow> bool" where
  "rain_rule amount kind =
     (case amount of
        None \<Rightarrow> False
      | Some mm \<Rightarrow> kind = (if 0 < mm then ''rain'' else ''none''))"

text \<open>
  The first entry of an hourly series of the response, and the fields the specification
  expects in a response: \<^verbatim>\<open>current_weather.{temperature,windspeed,winddirection}\<close> and
  \<^verbatim>\<open>hourly.{pressure_msl,precipitation}\<close>.  A field is missing when its path ends at a
  key that is not there.
\<close>

definition hourly_first :: "json \<Rightarrow> string \<Rightarrow> py_error + json" where
  "hourly_first data k =
     bind_err (getitem_key data ''hourly'') (\<lambda>hourly. bind_err (getitem_key hourly k) getitem_0)"

fun lookup_path :: "json \<Rightarrow> string list \<Rightarrow> json option" where
  "lookup_path v [] = Some v"
| "lookup_path (JObj kvs) (k # ks) =
     (case map_of kvs k of None \<Rightarrow> None | Some v \<Rightarrow> lookup_path v ks)"
| "lookup_path _ (k # ks) = None"

definition expected_fields :: "string list list" where
  "expected_fields =
     [[''current_weather'', ''temperature''],
      [''current_weather'', ''windspeed''],
      [''current_weather'', ''winddirection''],
      [''hourly'', ''pressure_msl''],
      [''hourly'', ''precipitation'']]"

definition missing_field :: "json \<Rightarrow> bool" where
  "missing_field data \<longleftrightarrow> (\<exists>p \<in> set expected_fields. lookup_path data p = None)"

text \<open>
  Newest first: no row is followed by a newer one.
\<close>

definition newest_first :: "WeatherData list \<Rightarrow> bool" where
  "newest_first rows = sorted_wrt (\<lambda>a b. timestamp b \<le> timestamp a) rows"

text \<open>
  The metric names of the \<^verbatim>\<open>hourly\<close> parameter: its value, split at the commas.
\<close>

fun split_on :: "char \<Rightarrow> string \<Rightarrow> string list" where
  "split_on c [] = [[]]"
| "split_on c (x # xs) =
     (if x = c then [] # split_on c xs
      else (case split_on c xs of [] \<Rightarrow> [[x]] | w # ws \<Rightarrow> (x # w) # ws))"

definition hourly_metrics :: "string list" where
  "hourly_metrics = split_on CHR '','' (py_str (the (map_of params ''hourly'')))"

text \<open>
  The seven column labels of the export, and a line trimmed of the white space at its
  ends, as \<^verbatim>\<open>str.strip\<close> does it.
\<close>

definition column_labels :: "string list" where
  "column_labels =
     [''Timestamp'', ''Temperature ('' @ [CHR 0xC2, CHR 0xB0] @ ''C)'', ''Wind Speed (m/s)'',
      ''Wind Direction'', ''Pressure (mmHg)'', ''Precipitation Type'',
      ''Precipitation Amount (mm)'']"

definition is_space :: "char \<Rightarrow> bool" where
  "is_space c \<longleftrightarrow> c \<in> set [CHR 0x20, CHR 0x09, CHR 0x0A, CHR 0x0B, CHR 0x0C, CHR 0x0D]"

definition strip :: "string \<Rightarrow> string" where
  "strip s = rev (dropWhile is_space (rev (dropWhile is_space s)))"

section \<open>Sample data\<close>

text \<open>
  A response body of the shape the API documents, with the five values the script
  reads; a body read at 90 degrees, 1013.25 hPa and 2.5 mm of rain together with the
  reading the script makes of it; a dry one; the error body of the API; a clock reading
  and the state of a fresh installation.
\<close>

definition api_body :: "json \<Rightarrow> json \<Rightarrow> json \<Rightarrow> json \<Rightarrow> json \<Rightarrow> json" where
  "api_body temp speed degrees hPa mm =
     JObj [(''current_weather'',
              JObj [(''temperature'', temp), (''windspeed'', speed), (''winddirection'', degrees)]),
           (''hourly'',
              JObj [(''pressure_msl'', JArr [hPa]), (''precipitation'', JArr [mm])])]"

definition sample_body :: json where
  "sample_body = api_body (JFloat (25 / 2)) (JFloat (7 / 2)) (JInt 90) (JFloat (4053 / 4)) (JFloat (5 / 2))"

definition sample_weather :: weather where
  "sample_weather =
     \<lparr>temperature = JFloat (25 / 2), wind_speed = JFloat (7 / 2),
      wind_direction = [CHR 0xD0, CHR 0x92],
      pressure = 6685015699539477 / 8796093022208,
      precipitation_type = ''rain'', precipitation_amount = JFloat (5 / 2)\<rparr>"

definition dry_body :: json where
  "dry_body = api_body (JInt 3) (JInt 2) (JInt 359) (JInt 1000) (JInt 0)"

definition error_body :: json where
  "error_body = JObj [(''error'', JBool True), (''reason'', JStr ''Internal error'')]"

definition sample_time :: local_time where
  "sample_time = \<lparr>year = 2024, month = 3, day = 9, hour = 7, minute = 5, second = 2\<rparr>"

definition empty_world :: world where
  "empty_world = \<lparr>table = [], files = Map.empty, stdout = [], exit_status = None\<rparr>"

text \<open>The row stored for the sample reading, with a given key and a given timestamp.\<close>

definition sample_row :: "nat \<Rightarrow> int \<Rightarrow> WeatherData" where
  "sample_row i t =
     \<lparr>temperature = Some (25 / 2), wind_speed = Some (7 / 2),
      wind_direction = [CHR 0xD0, CHR 0x92],
      pressure = Some (6685015699539477 / 8796093022208),
      precipitation_type = ''rain'', precipitation_amount = Some (5 / 2),
      row_id = i, timestamp = t\<rparr>"

section \<open>Properties of the rounding\<close>

lemma round_half_even_nonneg: "0 \<le> q \<Longrightarrow> 0 \<le> round_half_even q"
  by (auto simp: round_half_even_def Let_def)

lemma round_half_even_of_int: "round_half_even (of_int n) = n"
  by (simp add: round_half_even_def)

lemma round_half_even_error: "\<bar>of_int (round_half_even q) - q\<bar> \<le> 1 / 2"
proof -
  have "of_int \<lfloor>q\<rfloor> \<le> q" "q < of_int \<lfloor>q\<rfloor> + 1" by linarith+
  then show ?thesis
    by (auto simp: round_half_even_def Let_def abs_le_iff)
qed

lemma rnd_nonneg: "0 \<le> x \<Longrightarrow> 0 \<le> rnd x"
  by (simp add: rnd_def round_half_even_nonneg)

lemma expo_bounds:
  assumes "x \<noteq> 0"
  shows "2 powi expo x \<le> \<bar>x\<bar>" and "\<bar>x\<bar> < 2 powi (expo x + 1)"
proof -
  obtain p q where pq: "quotient_of \<bar>x\<bar> = (p, q)" by (cases "quotient_of \<bar>x\<bar>")
  have q: "0 < q" using pq quotient_of_denom_pos by blast
  have x: "\<bar>x\<bar> = of_int p / of_int q" using pq quotient_of_div by blast
  have p: "0 < p"
  proof (rule ccontr)
    assume "\<not> 0 < p"
    then have "of_int p / (of_int q :: rat) \<le> 0" using q by (simp add: divide_nonpos_pos)
    with x assms show False by simp
  qed
  define bp where "bp = nat (bitlen p - 1)"
  define bq where "bq = nat (bitlen q - 1)"
  have bp: "bitlen p = int bp + 1" and bq: "bitlen q = int bq + 1"
    using p q by (auto simp: bp_def bq_def bitlen_alt_def)
  have pb: "2 ^ bp \<le> p" "p < 2 ^ (bp + 1)"
    using bitlen_bounds[OF p] by (simp_all add: bp nat_add_distrib)
  have qb: "2 ^ bq \<le> q" "q < 2 ^ (bq + 1)"
    using bitlen_bounds[OF q] by (simp_all add: bq nat_add_distrib)
  have pr: "(2::rat) ^ bp \<le> of_int p" "of_int p < (2::rat) ^ (bp + 1)"
    using pb by (metis of_int_le_iff of_int_numeral of_int_power, metis of_int_less_iff of_int_numeral of_int_power)
  have qr: "(2::rat) ^ bq \<le> of_int q" "of_int q < (2::rat) ^ (bq + 1)"
    using qb by (metis of_int_le_iff of_int_numeral of_int_power, metis of_int_less_iff of_int_numeral of_int_power)
  have qpos: "(0::rat) < of_int q" using q by simp
  have k: "bitlen p - bitlen q = int bp - int bq" using bp bq by simp
  have lo: "(2::rat) powi (int bp - int bq - 1) \<le> \<bar>x\<bar>"
  proof -
    have "(2::rat) powi (int bp - int bq - 1) = 2 ^ bp / 2 ^ (bq + 1)"
      by (simp add: power_int_diff power_int_add)
    also have "\<dots> \<le> of_int p / of_int q"
      using pr qr qpos p by (intro frac_le) auto
    finally show ?thesis using x by simp
  qed
  have hi: "\<bar>x\<bar> < (2::rat) powi (int bp - int bq + 1)"
  proof -
    have "of_int p / of_int q < (2::rat) ^ (bp + 1) / 2 ^ bq"
      using pr qr qpos p by (intro frac_less) auto
    also have "\<dots> = (2::rat) powi (int bp - int bq + 1)"
      by (simp add: power_int_diff power_int_add)
    finally show ?thesis using x by simp
  qed
  show "2 powi expo x \<le> \<bar>x\<bar>"
    using lo by (auto simp: expo_def pq k Let_def)
  show "\<bar>x\<bar> < 2 powi (expo x + 1)"
    using hi by (auto simp: expo_def pq k Let_def not_le)
qed

lemma expo_less:
  assumes "x \<noteq> 0" "\<bar>x\<bar> < 2 powi n"
  shows "expo x < n"
proof (rule ccontr)
  assume "\<not> expo x < n"
  then have "(2::rat) powi n \<le> 2 powi expo x"
    by (intro power_int_increasing) auto
  with expo_bounds(1)[OF assms(1)] assms(2) show False by linarith
qed

lemma expo_ge:
  assumes "x \<noteq> 0" "2 powi n \<le> \<bar>x\<bar>"
  shows "n \<le> expo x"
proof (rule ccontr)
  assume "\<not> n \<le> expo x"
  then have "(2::rat) powi (expo x + 1) \<le> 2 powi n"
    by (intro power_int_increasing) auto
  with expo_bounds(2)[OF assms(1)] assms(2) show False by linarith
qed

lemma rnd_exact:
  assumes x: "x = of_int m * 2 powi e" and m: "\<bar>m\<bar> < 2 ^ 53" and e: "- 1074 \<le> e"
  shows "rnd x = x"
proof (cases "x = 0")
  case True
  then show ?thesis by (simp add: rnd_def)
next
  case False
  have "\<bar>x\<bar> = of_int \<bar>m\<bar> * 2 powi e"
    by (simp add: x abs_mult)
  also have "\<dots> < 2 ^ 53 * 2 powi e"
  proof (rule mult_strict_right_mono)
    have "(of_int \<bar>m\<bar> :: rat) < of_int (2 ^ 53)" using m by (simp only: of_int_less_iff)
    then show "(of_int \<bar>m\<bar> :: rat) < 2 ^ 53" by simp
  qed simp
  also have "\<dots> = 2 powi (53 + e)"
    by (simp add: power_int_add)
  finally have "expo x < 53 + e"
    using False by (intro expo_less)
  then have q: "quantum x \<le> e"
    using e by (simp add: quantum_def)
  define d where "d = nat (e - quantum x)"
  define Q :: rat where "Q = 2 powi quantum x"
  have Q: "Q \<noteq> 0" by (simp add: Q_def)
  have "(2::rat) powi e = 2 powi (int d + quantum x)"
    using q by (simp add: d_def)
  also have "\<dots> = 2 ^ d * Q"
    by (simp add: power_int_add Q_def)
  finally have xQ: "x = of_int (m * 2 ^ d) * Q"
    by (simp add: x)
  then have "x / Q = of_int (m * 2 ^ d)"
    using Q by simp
  then have "round_half_even (x / Q) = m * 2 ^ d"
    by (simp only: round_half_even_of_int)
  then have "rnd x = of_int (m * 2 ^ d) * Q"
    using False by (simp add: rnd_def Q_def)
  then show ?thesis using xQ by simp
qed

lemma rnd_of_int: "\<bar>i\<bar> < 2 ^ 53 \<Longrightarrow> rnd (of_int i) = of_int i"
  using rnd_exact[of "of_int i" i 0] by simp

lemma rnd_half_int: "\<bar>i\<bar> < 2 ^ 53 \<Longrightarrow> rnd (of_int i / 2) = of_int i / 2"
  using rnd_exact[of "of_int i / 2" i "- 1"] by simp

lemma rnd_error:
  assumes "x \<noteq> 0"
  shows "\<bar>rnd x - x\<bar> \<le> 2 powi quantum x / 2"
proof -
  define Q :: rat where "Q = 2 powi quantum x"
  have Q: "0 < Q" by (simp add: Q_def)
  have "rnd x - x = (of_int (round_half_even (x / Q)) - x / Q) * Q"
    using assms Q by (simp add: rnd_def Q_def field_simps)
  then have "\<bar>rnd x - x\<bar> = \<bar>of_int (round_half_even (x / Q)) - x / Q\<bar> * Q"
    using Q by (simp add: abs_mult)
  also have "\<dots> \<le> 1 / 2 * Q"
    using Q round_half_even_error[of "x / Q"] by (intro mult_right_mono) auto
  finally show ?thesis by (simp add: Q_def)
qed

lemma rnd_rel_error:
  assumes "2 powi (- 1022) \<le> \<bar>x\<bar>"
  shows "\<bar>rnd x - x\<bar> \<le> \<bar>x\<bar> / 2 ^ 53"
proof -
  have nz: "x \<noteq> 0" using assms by auto
  have "- 1022 \<le> expo x" using nz assms by (rule expo_ge)
  then have q: "quantum x = expo x - 52" by (simp add: quantum_def)
  have "\<bar>rnd x - x\<bar> \<le> 2 powi (expo x - 52) / 2"
    using rnd_error[OF nz] q by simp
  also have "\<dots> = 2 powi expo x / 2 ^ 53"
    by (simp add: power_int_diff)
  also have "\<dots> \<le> \<bar>x\<bar> / 2 ^ 53"
    using expo_bounds(1)[OF nz] by (simp add: divide_right_mono)
  finally show ?thesis .
qed

lemma expo_eqI:
  assumes "2 powi e \<le> \<bar>x\<bar>" "\<bar>x\<bar> < 2 powi (e + 1)"
  shows "expo x = e"
proof -
  have nz: "x \<noteq> 0"
    using assms(1) zero_less_power_int[of "2::rat" e] by linarith
  have "e \<le> expo x" using nz assms(1) by (rule expo_ge)
  moreover have "expo x < e + 1" using nz assms(2) by (rule expo_less)
  ultimately show ?thesis by simp
qed

lemma rnd_eval:
  assumes "2 powi e \<le> \<bar>x\<bar>" "\<bar>x\<bar> < 2 powi (e + 1)"
    and "max (e - 52) (- 1074) = q" and "round_half_even (x / 2 powi q) = n"
  shows "rnd x = of_int n * 2 powi q"
proof -
  have nz: "x \<noteq> 0"
    using assms(1) zero_less_power_int[of "2::rat" e] by linarith
  have "quantum x = q"
    using expo_eqI[OF assms(1,2)] assms(3) by (simp add: quantum_def)
  then show ?thesis using nz assms(4) by (simp add: rnd_def)
qed

lemma floor_div_rat:
  fixes x :: rat
  assumes "0 < k"
  shows "\<lfloor>x / of_int k\<rfloor> = \<lfloor>x\<rfloor> div k"
proof (rule floor_unique)
  define f where "f = \<lfloor>x\<rfloor>"
  have f: "of_int f \<le> x" "x < of_int f + 1" unfolding f_def by linarith+
  have k: "(0::rat) < of_int k" using assms by simp
  have d: "k * (f div k) \<le> f" "f < k * (f div k) + k"
    using assms by (simp_all add: algebra_simps div_mult_mod_eq[symmetric] del: div_mult_mod_eq)
       (metis add.commute div_mult_mod_eq mult.commute pos_mod_sign le_add_same_cancel1,
        metis add.commute add_strict_left_mono div_mult_mod_eq mult.commute pos_mod_bound)
  have "of_int (k * (f div k)) \<le> (of_int f :: rat)" using d(1) by (simp only: of_int_le_iff)
  then have "of_int k * of_int (f div k) \<le> x" using f(1) by simp
  then show "of_int (\<lfloor>x\<rfloor> div k) \<le> x / of_int k"
    using k by (simp add: f_def field_simps)
  have "f + 1 \<le> k * (f div k) + k" using d(2) by simp
  then have "(of_int (f + 1) :: rat) \<le> of_int (k * (f div k) + k)" by (simp only: of_int_le_iff)
  then have "x < of_int k * of_int (f div k) + of_int k" using f(2) by simp
  then show "x / of_int k < of_int (\<lfloor>x\<rfloor> div k) + 1"
    using k by (simp add: f_def field_simps)
qed

lemma floor_numeral_div_rat:
  "\<lfloor>(numeral a :: rat) / numeral b\<rfloor> = numeral a div numeral b"
  "\<lfloor>- ((numeral a :: rat) / numeral b)\<rfloor> = (- numeral a) div numeral b"
  using floor_divide_of_int_eq[of "numeral a" "numeral b", where ?'a = rat]
    floor_divide_of_int_eq[of "- numeral a" "numeral b", where ?'a = rat]
  by simp_all


section \<open>The compass label\<close>

lemma floor_mod_360_range: "0 \<le> floor_mod s 360" "floor_mod s 360 < 360"
proof -
  have "of_int \<lfloor>s / 360\<rfloor> \<le> s / 360" "s / 360 < of_int \<lfloor>s / 360\<rfloor> + 1" by linarith+
  then show "0 \<le> floor_mod s 360" "floor_mod s 360 < 360"
    by (simp_all add: floor_mod_def field_simps)
qed

lemma float_mod_360_nonneg:
  assumes "0 \<le> s"
  shows "float_mod s 360 = floor_mod s 360"
proof -
  have "py_int (s / 360) = \<lfloor>s / 360\<rfloor>" using assms by (simp add: py_int_def)
  then have "fmod s 360 = floor_mod s 360" by (simp add: fmod_def floor_mod_def)
  then show ?thesis using floor_mod_360_range(1)[of s] by (simp add: float_mod_def Let_def)
qed

text \<open>
  Where the float sum is not negative, the index the program computes is the index of
  the specification's formula at the direction whose exact sum with 22.5 is that float
  sum, and it lies between 0 and 7.
\<close>

lemma compass_index_nonneg:
  assumes "0 \<le> float_add d (45 / 2)"
  shows "compass_index d = spec_compass_index (float_add d (45 / 2) - 45 / 2)"
    and "0 \<le> compass_index d" and "compass_index d < 8"
proof -
  define m where "m = floor_mod (float_add d (45 / 2)) 360"
  have m: "0 \<le> m" "m < 360" using floor_mod_360_range by (simp_all add: m_def)
  have fm: "float_mod (float_add d (45 / 2)) 360 = m"
    using assms by (simp add: float_mod_360_nonneg m_def)
  have "py_int m = \<lfloor>m\<rfloor>" using m by (simp add: py_int_def)
  then have ci: "compass_index d = \<lfloor>m\<rfloor> div 45" by (simp add: compass_index_def fm)
  also have "\<dots> = \<lfloor>m / of_int 45\<rfloor>" by (simp only: floor_div_rat)
  finally show "compass_index d = spec_compass_index (float_add d (45 / 2) - 45 / 2)"
    by (simp add: spec_compass_index_def m_def)
  define f where "f = \<lfloor>m\<rfloor>"
  have "0 \<le> f" "f < 360" using m by (simp_all add: f_def floor_less_iff)
  then have "0 \<le> f div 45" "f div 45 < 8" by presburger+
  then show "0 \<le> compass_index d" "compass_index d < 8" by (simp_all add: ci f_def)
qed

lemma float_add_nonneg: "- (45 / 2) \<le> d \<Longrightarrow> 0 \<le> float_add d (45 / 2)"
  by (simp add: float_add_def rnd_nonneg)

lemma list_getitem_in_range:
  "0 \<le> i \<Longrightarrow> i < int (length xs) \<Longrightarrow> list_getitem xs i = Inr (xs ! nat i)"
  by (simp add: list_getitem_def)

lemma length_wind_direction_map: "length wind_direction_map = 8"
  by (simp add: wind_direction_map_def)






text \<open>The sum is exact at every multiple of \<open>2 powi - 44\<close>, so at every whole number.\<close>

lemma sum_exact:
  assumes "0 \<le> d" "d < 360" "d = of_int k / 2 ^ 44"
  shows "float_add d (45 / 2) = d + 45 / 2"
proof -
  have "(0::rat) \<le> of_int k" "(of_int k :: rat) < of_int (360 * 2 ^ 44)"
    using assms by (simp_all add: field_simps)
  then have k: "0 \<le> k" "k < 360 * 2 ^ 44" by (simp_all only: of_int_0_le_iff of_int_less_iff)
  show ?thesis unfolding float_add_def
  proof (rule rnd_exact[where m = "k + 45 * 2 ^ 43" and e = "- 44"])
    show "d + 45 / 2 = of_int (k + 45 * 2 ^ 43) * 2 powi (- 44)"
      by (simp add: assms(3) power_int_minus_divide field_simps)
    show "\<bar>k + 45 * 2 ^ 43\<bar> < 2 ^ 53" using k by simp
  qed simp
qed


lemma floor_mod_half:
  "floor_mod (of_int k / 2) 360 / 45 = of_int (k mod 720) / of_int 90"
proof -
  have "(of_int k / 2 :: rat) / 360 = of_int k / of_int 720" by simp
  then have "\<lfloor>(of_int k / 2 :: rat) / 360\<rfloor> = k div 720"
    by (simp only: floor_divide_of_int_eq)
  then have "floor_mod (of_int k / 2) 360 = of_int k / 2 - 360 * of_int (k div 720)"
    by (simp only: floor_mod_def)
  also have "\<dots> = of_int (k - 720 * (k div 720)) / 2" by simp
  also have "k - 720 * (k div 720) = k mod 720" by (simp only: minus_mult_div_eq_mod)
  finally show ?thesis by simp
qed

lemma whole_degrees_index:
  "spec_compass_index (of_int n) = ((2 * n + 45) mod 720) div 90"
proof -
  have "(of_int n :: rat) + 45 / 2 = of_int (2 * n + 45) / 2" by simp
  then have "spec_compass_index (of_int n) = \<lfloor>floor_mod (of_int (2 * n + 45) / 2) 360 / 45\<rfloor>"
    by (simp only: spec_compass_index_def)
  then show ?thesis by (simp only: floor_mod_half floor_divide_of_int_eq)
qed

lemma as_float_int: "\<bar>i\<bar> < 2 ^ 53 \<Longrightarrow> as_float (JInt i) = Inr (of_int i)"
proof -
  assume i: "\<bar>i\<bar> < 2 ^ 53"
  then have "(of_int \<bar>i\<bar> :: rat) < of_int (2 ^ 53)" by (simp only: of_int_less_iff)
  then have "\<bar>of_int i :: rat\<bar> < 2 ^ 53" by simp
  also have "(2::rat) ^ 53 < 2 ^ 1024" by (rule power_strict_increasing) simp_all
  finally have "\<not> (2::rat) ^ 1024 \<le> \<bar>of_int i\<bar>" by simp
  then show ?thesis using rnd_of_int[OF i] by (simp add: float_of_int_def Let_def)
qed

lemma wind_direction_in_range:
  assumes "as_float v = Inr degrees" and "0 \<le> degrees" and "degrees < 360"
  shows "wind_direction_of v = Inr (wind_direction_map ! nat (compass_index degrees))"
    and "0 \<le> compass_index degrees" and "compass_index degrees < 8"
    and "wind_direction_map ! nat (compass_index degrees) \<in> set wind_direction_map"
proof -
  have s: "0 \<le> float_add degrees (45 / 2)"
    using assms(2) by (intro float_add_nonneg) simp
  show range: "0 \<le> compass_index degrees" "compass_index degrees < 8"
    using compass_index_nonneg[OF s] by simp_all
  then have "list_getitem wind_direction_map (compass_index degrees)
      = Inr (wind_direction_map ! nat (compass_index degrees))"
    by (simp add: list_getitem_in_range length_wind_direction_map)
  then show "wind_direction_of v = Inr (wind_direction_map ! nat (compass_index degrees))"
    using assms(1) by (simp add: wind_direction_of_def bind_err_def)
  show "wind_direction_map ! nat (compass_index degrees) \<in> set wind_direction_map"
    using range by (intro nth_mem) (simp add: length_wind_direction_map)
qed

lemma compass_index_exact:
  assumes "0 \<le> d" "d < 360" "float_add d (45 / 2) = d + 45 / 2"
  shows "compass_index d = spec_compass_index d"
proof -
  have "0 \<le> float_add d (45 / 2)" using assms(1) by (intro float_add_nonneg) simp
  then show ?thesis using compass_index_nonneg(1)[of d] assms(3) by simp
qed

lemma wind_direction_whole:
  assumes "0 \<le> n" "n < 360"
  shows "wind_direction_of (JInt n) = Inr (wind_direction_map ! nat ((2 * n + 45) mod 720 div 90))"
proof -
  have "\<bar>n\<bar> < 2 ^ 53" using assms by simp
  then have a: "as_float (JInt n) = Inr (of_int n)" by (rule as_float_int)
  have r: "(0::rat) \<le> of_int n" "(of_int n :: rat) < 360" using assms by simp_all
  have "(of_int n :: rat) = of_int (n * 2 ^ 44) / 2 ^ 44" by simp
  then have "float_add (of_int n) (45 / 2) = of_int n + 45 / 2" by (rule sum_exact[OF r])
  then have "compass_index (of_int n) = (2 * n + 45) mod 720 div 90"
    using compass_index_exact[OF r] by (simp only: whole_degrees_index)
  then show ?thesis using wind_direction_in_range(1)[OF a r] by simp
qed






subsection \<open>A direction just below -22.5 degrees\<close>

lemma rnd_below_360: "rnd (360 - 1 / 2 ^ 48) = 360"
proof -
  have "rnd (360 - 1 / 2 ^ 48) = of_int 6333186975989760 * 2 powi (- 44)"
    by (rule rnd_eval[where e = 8]) (simp_all add: round_half_even_def Let_def floor_numeral_div_rat)
  then show ?thesis by simp
qed

lemma tiny_sum: "float_add (- (6333186975989761 / 281474976710656)) (45 / 2) = - (1 / 281474976710656)"
proof -
  have "rnd (- (1 / 2 ^ 48)) = - (1 / 2 ^ 48)"
    by (rule rnd_exact[where m = "- 1" and e = "- 48"]) (simp_all add: power_int_minus_divide)
  then show ?thesis by (simp add: float_add_def)
qed

lemma tiny_mod: "float_mod (- (1 / 281474976710656)) 360 = 360"
proof -
  have "\<lceil>- (1 / (2 ^ 48 * 360)) :: rat\<rceil> = 0"
    by (rule ceiling_unique) simp_all
  then have "py_int (- (1 / 2 ^ 48) / 360) = 0"
    by (simp add: py_int_def)
  then have "fmod (- (1 / 2 ^ 48)) 360 = - (1 / 2 ^ 48)"
    by (simp add: fmod_def)
  then show ?thesis
    using rnd_below_360 by (simp add: float_mod_def Let_def float_add_def)
qed

text \<open>
  Claim C10.  The index is not always below 8.  The float next below \<open>-22.5\<close> is
  \<open>-22.500000000000004\<close>; adding 22.5 gives \<open>- 2 powi - 48\<close> exactly, whose remainder is
  negative, and the addition of 360 that \<^verbatim>\<open>%\<close> then performs rounds to 360.0.  The index
  is 8, and the subscript raises \<^verbatim>\<open>IndexError\<close>.
\<close>

theorem compass_index_out_of_range:
  "is_double (- (6333186975989761 / 281474976710656))
   \<and> compass_index (- (6333186975989761 / 281474976710656)) = 8
   \<and> wind_direction_of (JFloat (- (6333186975989761 / 281474976710656))) = Inl IndexError"
proof -
  have "rnd (- (6333186975989761 / 281474976710656)) = - (6333186975989761 / 281474976710656)"
    by (rule rnd_exact[where m = "- 6333186975989761" and e = "- 48"])
       (simp_all add: power_int_minus_divide)
  moreover have "\<bar>- (6333186975989761 / 281474976710656) :: rat\<bar> < 2 ^ 1024"
  proof -
    have "\<bar>- (6333186975989761 / 281474976710656) :: rat\<bar> < 2 ^ 5" by simp
    also have "(2::rat) ^ 5 < 2 ^ 1024" by (rule power_strict_increasing) simp_all
    finally show ?thesis .
  qed
  ultimately have d: "is_double (- (6333186975989761 / 281474976710656))"
    by (simp only: is_double_def simp_thms)
  have i: "compass_index (- (6333186975989761 / 281474976710656)) = 8"
    by (simp add: compass_index_def tiny_sum tiny_mod py_int_def)
  have "wind_direction_of (JFloat (- (6333186975989761 / 281474976710656))) = Inl IndexError"
    by (simp add: wind_direction_of_def bind_err_def i list_getitem_def length_wind_direction_map)
  with d i show ?thesis by simp
qed

section \<open>What a fetch returns\<close>

lemma bind_err_Inr: "bind_err m f = Inr y \<longleftrightarrow> (\<exists>x. m = Inr x \<and> f x = Inr y)"
  by (cases m) (simp_all add: bind_err_def)

lemma bind_err_simps [simp]: "bind_err (Inl e) f = Inl e" "bind_err (Inr x) f = f x"
  by (simp_all add: bind_err_def)

lemma greater_zero_Inr:
  "greater_zero a = Inr wet \<Longrightarrow> \<exists>mm. num_value a = Some mm \<and> wet = (0 < mm)"
  by (cases a) (auto simp: num_value_def)

lemma read_weather_Inr:
  assumes "read_weather data = Inr w"
  obtains current hourly degrees series hPa p rain amount wet where
    "getitem_key data ''current_weather'' = Inr current"
    "getitem_key data ''hourly'' = Inr hourly"
    "getitem_key current ''winddirection'' = Inr degrees"
    "wind_direction_of degrees = Inr (wind_direction w)"
    "getitem_key current ''temperature'' = Inr (temperature w)"
    "getitem_key current ''windspeed'' = Inr (wind_speed w)"
    "getitem_key hourly ''pressure_msl'' = Inr series"
    "getitem_0 series = Inr hPa"
    "as_float hPa = Inr p"
    "pressure w = float_mul p hPa_to_mmHg"
    "getitem_key hourly ''precipitation'' = Inr rain"
    "getitem_0 rain = Inr amount"
    "greater_zero amount = Inr wet"
    "precipitation_type w = (if wet then ''rain'' else ''none'')"
    "precipitation_amount w = amount"
  using assms unfolding read_weather_def bind_err_Inr by force

lemma read_weather_rain:
  "read_weather data = Inr w \<Longrightarrow>
   rain_rule (num_value (precipitation_amount w)) (precipitation_type w)"
  by (erule read_weather_Inr) (auto simp: rain_rule_def dest!: greater_zero_Inr)

lemma get_weather_data_Inr:
  assumes "get_weather_data net = (Inr w, net')"
  obtains r rest data where "replies net = Inr r # rest" "payload r = Inr data"
    "read_weather data = Inr w"
  using assms
  by (auto simp: get_weather_data_def session_get_def bind_err_Inr
      split: list.splits sum.splits)

lemma hPa_to_mmHg_value: "hPa_to_mmHg = 1688984968252757 / 2251799813685248"
proof -
  have "rnd (75006 / 100000) = of_int 6755939873011028 * 2 powi (- 53)"
    by (rule rnd_eval[where e = "- 1"])
       (simp_all add: round_half_even_def Let_def floor_numeral_div_rat power_int_minus_divide)
  then show ?thesis by (simp add: hPa_to_mmHg_def power_int_minus_divide)
qed

lemma standard_atmosphere:
  "float_mul (4053 / 4) hPa_to_mmHg = 6685015699539477 / 8796093022208"
proof -
  have "rnd (4053 / 4 * (1688984968252757 / 2251799813685248))
      = of_int 6685015699539477 * 2 powi (- 43)"
    by (rule rnd_eval[where e = 9])
       (simp_all add: round_half_even_def Let_def floor_numeral_div_rat power_int_minus_divide)
  then show ?thesis by (simp add: float_mul_def hPa_to_mmHg_value power_int_minus_divide)
qed

lemma hPa_to_mmHg_error: "\<bar>hPa_to_mmHg - 75006 / 100000\<bar> \<le> 5 / 8 * (75006 / 100000) / 2 ^ 53"
  by (simp add: hPa_to_mmHg_value)

lemma hPa_to_mmHg_bounds: "1 / 2 \<le> hPa_to_mmHg" "0 < hPa_to_mmHg"
  by (simp_all add: hPa_to_mmHg_value)

lemma pressure_error:
  assumes "2 powi (- 1021) \<le> \<bar>p\<bar>"
  shows "\<bar>float_mul p hPa_to_mmHg - p * (75006 / 100000)\<bar> \<le> \<bar>p * (75006 / 100000)\<bar> / 2 ^ 52"
proof -
  define c where "c = hPa_to_mmHg"
  define c0 :: rat where "c0 = 75006 / 100000"
  define u :: rat where "u = 1 / 2 ^ 53"
  define d where "d = 5 / 8 * c0 * u"
  have u: "0 < u" "u \<le> 1 / 8" by (simp_all add: u_def)
  have c0: "0 < c0" by (simp add: c0_def)
  have c: "1 / 2 \<le> c" "0 < c" using hPa_to_mmHg_bounds by (simp_all add: c_def)
  have ce: "\<bar>c - c0\<bar> \<le> d"
    using hPa_to_mmHg_error by (simp add: c_def c0_def u_def d_def)
  have "2 powi (- 1022) = (2::rat) powi (- 1021) * (1 / 2)"
    by (simp add: power_int_minus_divide)
  also have "\<dots> \<le> \<bar>p\<bar> * c"
    using assms c by (intro mult_mono) simp_all
  finally have "2 powi (- 1022) \<le> \<bar>p * c\<bar>"
    using c by (simp add: abs_mult)
  then have r: "\<bar>rnd (p * c) - p * c\<bar> \<le> \<bar>p * c\<bar> * u"
    using rnd_rel_error[of "p * c"] by (simp add: u_def)
  have pc: "\<bar>p * c - p * c0\<bar> \<le> \<bar>p\<bar> * d"
  proof -
    have "\<bar>p * c - p * c0\<bar> = \<bar>p\<bar> * \<bar>c - c0\<bar>"
      by (simp add: abs_mult flip: right_diff_distrib)
    also have "\<dots> \<le> \<bar>p\<bar> * d"
      using ce by (intro mult_left_mono) simp_all
    finally show ?thesis .
  qed
  have "c \<le> c0 + d" using ce by linarith
  then have "\<bar>p\<bar> * c \<le> \<bar>p\<bar> * (c0 + d)"
    by (intro mult_left_mono) simp_all
  then have "\<bar>p\<bar> * c * u \<le> \<bar>p\<bar> * (c0 + d) * u"
    using u by (intro mult_right_mono) simp_all
  moreover have "\<bar>p * c\<bar> = \<bar>p\<bar> * c" using c by (simp add: abs_mult)
  ultimately have r': "\<bar>rnd (p * c) - p * c\<bar> \<le> \<bar>p\<bar> * (c0 + d) * u"
    using r by simp
  have "\<bar>rnd (p * c) - p * c0\<bar> \<le> \<bar>rnd (p * c) - p * c\<bar> + \<bar>p * c - p * c0\<bar>" by linarith
  also have "\<dots> \<le> \<bar>p\<bar> * (c0 + d) * u + \<bar>p\<bar> * d"
    using r' pc by linarith
  also have "\<dots> = \<bar>p\<bar> * c0 * u * (13 / 8 + 5 / 8 * u)"
    by (simp add: d_def algebra_simps)
  also have "\<dots> \<le> \<bar>p\<bar> * c0 * u * 2"
    using u c0 by (intro mult_left_mono) simp_all
  also have "\<dots> = \<bar>p * c0\<bar> / 2 ^ 52"
    using c0 by (simp add: abs_mult u_def)
  finally show ?thesis by (simp add: float_mul_def c_def c0_def)
qed

lemma read_weather_api_body:
  "read_weather (api_body temp speed degrees hPa mm) =
     bind_err (wind_direction_of degrees) (\<lambda>direction.
     bind_err (as_float hPa) (\<lambda>p.
     bind_err (greater_zero mm) (\<lambda>wet.
       Inr \<lparr>temperature = temp, wind_speed = speed, wind_direction = direction,
            pressure = float_mul p hPa_to_mmHg,
            precipitation_type = (if wet then ''rain'' else ''none''),
            precipitation_amount = mm\<rparr>)))"
  by (simp add: read_weather_def api_body_def list_getitem_def)

lemma hourly_first_api_body:
  "hourly_first (api_body temp speed degrees hPa mm) ''pressure_msl'' = Inr hPa"
  "hourly_first (api_body temp speed degrees hPa mm) ''precipitation'' = Inr mm"
  by (simp_all add: hourly_first_def api_body_def list_getitem_def)

lemma read_sample_body: "read_weather sample_body = Inr sample_weather"
  using wind_direction_whole[of 90]
  by (simp add: sample_body_def sample_weather_def read_weather_api_body standard_atmosphere
      wind_direction_map_def)

lemma read_dry_body:
  "read_weather dry_body =
     Inr \<lparr>temperature = JInt 3, wind_speed = JInt 2, wind_direction = [CHR 0xD0, CHR 0xA1],
          pressure = float_mul 1000 hPa_to_mmHg,
          precipitation_type = ''none'', precipitation_amount = JInt 0\<rparr>"
  using wind_direction_whole[of 359] as_float_int[of 1000]
  by (simp add: dry_body_def read_weather_api_body wind_direction_map_def)

lemma get_weather_data_cases:
  "get_weather_data net =
     ((case replies net of
         [] \<Rightarrow> Inl ClientError
       | Inl e # rest \<Rightarrow> Inl e
       | Inr r # rest \<Rightarrow> bind_err (payload r) read_weather),
      net\<lparr>sent := sent net @ [url], replies := tl (replies net)\<rparr>)"
  by (simp add: get_weather_data_def session_get_def split: list.splits sum.splits)

subsection \<open>Precipitation\<close>

text \<open>The conversion of an int to a float keeps its sign.\<close>

lemma rnd_of_int_pos: "0 < rnd (of_int i) \<longleftrightarrow> 0 < i"
proof (cases "i = 0")
  case True
  then show ?thesis by (simp add: rnd_def)
next
  case False
  define x :: rat where "x = of_int i"
  have "1 \<le> \<bar>i\<bar>" using False by simp
  then have "(of_int 1 :: rat) \<le> of_int \<bar>i\<bar>" by (simp only: of_int_le_iff)
  then have x1: "1 \<le> \<bar>x\<bar>" by (simp add: x_def)
  have "(2::rat) powi (- 1022) \<le> 2 powi 0" by (rule power_int_increasing) simp_all
  then have "2 powi (- 1022) \<le> \<bar>x\<bar>" using x1 by simp
  then have e: "\<bar>rnd x - x\<bar> \<le> \<bar>x\<bar> / 2 ^ 53" by (rule rnd_rel_error)
  have "\<bar>x\<bar> / 2 ^ 53 < \<bar>x\<bar>" using x1 by simp
  with e have "\<bar>rnd x - x\<bar> < \<bar>x\<bar>" by linarith
  then have "0 < rnd x \<longleftrightarrow> 0 < x" by linarith
  then show ?thesis by (simp add: x_def)
qed

lemma to_float_amount:
  assumes "greater_zero a = Inr wet" and "to_float float_of_str a = Inr x"
  shows "\<exists>y. x = Some y \<and> wet = (0 < y)"
proof (cases a)
  case (JFloat q)
  then show ?thesis using assms by (auto simp: to_float_def)
next
  case (JInt i)
  then show ?thesis
    using assms rnd_of_int_pos[of i]
    by (auto simp: to_float_def float_of_int_def Let_def split: if_splits)
next
  case (JBool b)
  then show ?thesis
    using assms rnd_of_int_pos[of 1] rnd_of_int_pos[of 0]
    by (auto simp: to_float_def float_of_int_def Let_def split: if_splits)
qed (use assms in simp_all)

lemma save_to_db_Inr:
  assumes "save_to_db float_of_str utcnow data rows = Inr stored"
  obtains t s a where
    "to_float float_of_str (temperature data) = Inr t"
    "to_float float_of_str (wind_speed data) = Inr s"
    "to_float float_of_str (precipitation_amount data) = Inr a"
    "stored = rows @
       [\<lparr>temperature = t, wind_speed = s, wind_direction = wind_direction data,
         pressure = Some (pressure data),
         precipitation_type = precipitation_type data, precipitation_amount = a,
         row_id = next_id rows, timestamp = utcnow\<rparr>]"
  using assms by (auto simp: save_to_db_def split: sum.splits)

lemma save_to_db_Inl:
  "save_to_db float_of_str utcnow data rows = Inl e \<Longrightarrow> e = StatementError"
  by (auto simp: save_to_db_def split: sum.splits)

text \<open>The row stored for a reading that a fetch returned obeys the rule.\<close>

lemma save_to_db_rain:
  assumes "read_weather data = Inr w"
    and "save_to_db float_of_str utcnow w rows = Inr stored"
  shows "\<exists>row. stored = rows @ [row]
    \<and> precipitation_type row = precipitation_type w
    \<and> to_float float_of_str (precipitation_amount w) = Inr (precipitation_amount row)
    \<and> rain_rule (precipitation_amount row) (precipitation_type row)"
proof -
  from assms(1) obtain amount wet where
    g: "greater_zero amount = Inr wet"
      "precipitation_type w = (if wet then ''rain'' else ''none'')"
      "precipitation_amount w = amount"
    by (rule read_weather_Inr)
  from assms(2) obtain t s a where
    a: "to_float float_of_str (precipitation_amount w) = Inr a"
    and st: "stored = rows @
       [\<lparr>temperature = t, wind_speed = s, wind_direction = wind_direction w,
         pressure = Some (pressure w),
         precipitation_type = precipitation_type w, precipitation_amount = a,
         row_id = next_id rows, timestamp = utcnow\<rparr>]"
    by (rule save_to_db_Inr)
  from to_float_amount[OF g(1) a[unfolded g(3)]] obtain y where "a = Some y" "wet = (0 < y)"
    by blast
  then have "rain_rule a (precipitation_type w)" using g(2) by (simp add: rain_rule_def)
  then show ?thesis using st a by simp
qed

lemma weather_round_rain:
  assumes "\<forall>r \<in> set (table (snd s)). rain_rule (precipitation_amount r) (precipitation_type r)"
  shows "\<forall>r \<in> set (table (snd (weather_round float_of_str clock s))).
           rain_rule (precipitation_amount r) (precipitation_type r)"
proof (cases "get_weather_data (fst s)")
  case (Pair res net')
  show ?thesis
  proof (cases res)
    case (Inl e)
    then show ?thesis using assms Pair by (simp add: weather_round_def)
  next
    case (Inr w)
    then obtain data where r: "read_weather data = Inr w"
      using Pair by (auto elim!: get_weather_data_Inr)
    show ?thesis
    proof (cases "save_to_db float_of_str (fst clock) w (table (snd s))")
      case (Inl e)
      then show ?thesis using assms Pair Inr by (simp add: weather_round_def)
    next
      case stored: (Inr stored)
      from save_to_db_rain[OF r stored] obtain row where
        "stored = table (snd s) @ [row]" "rain_rule (precipitation_amount row) (precipitation_type row)"
        by blast
      then show ?thesis using assms Pair Inr stored by (simp add: weather_round_def)
    qed
  qed
qed

lemma weather_loop_rain:
  "\<forall>r \<in> set (table (snd s)). rain_rule (precipitation_amount r) (precipitation_type r) \<Longrightarrow>
   \<forall>r \<in> set (table (snd (weather_loop float_of_str clocks s))).
     rain_rule (precipitation_amount r) (precipitation_type r)"
proof (induction clocks arbitrary: s)
  case Nil
  then show ?case by (simp add: weather_loop_def)
next
  case (Cons c cs)
  have "\<forall>r \<in> set (table (snd (weather_round float_of_str c s))).
      rain_rule (precipitation_amount r) (precipitation_type r)"
    using Cons.prems by (rule weather_round_rain)
  then have "\<forall>r \<in> set (table (snd (weather_loop float_of_str cs (weather_round float_of_str c s)))).
      rain_rule (precipitation_amount r) (precipitation_type r)"
    by (rule Cons.IH)
  then show ?case by (simp add: weather_loop_def)
qed

text \<open>The rows stored for the two sample bodies.\<close>

lemma to_float_simps:
  "to_float float_of_str (JFloat x) = Inr (Some x)"
  "\<bar>i\<bar> < 2 ^ 53 \<Longrightarrow> to_float float_of_str (JInt i) = Inr (Some (of_int i))"
  "to_float float_of_str JNull = Inr None"
  "to_float float_of_str (JArr xs) = Inl TypeError"
  "to_float float_of_str (JObj kvs) = Inl TypeError"
  using as_float_int[of i] by (simp_all add: to_float_def)

lemma save_sample_weather:
  "save_to_db float_of_str t sample_weather rows = Inr (rows @ [sample_row (next_id rows) t])"
  by (simp add: save_to_db_def sample_weather_def sample_row_def to_float_simps)

lemma save_dry_weather:
  "save_to_db float_of_str t
     \<lparr>temperature = JInt 3, wind_speed = JInt 2, wind_direction = [CHR 0xD0, CHR 0xA1],
      pressure = float_mul 1000 hPa_to_mmHg,
      precipitation_type = ''none'', precipitation_amount = JInt 0\<rparr> rows
   = Inr (rows @
       [\<lparr>temperature = Some 3, wind_speed = Some 2, wind_direction = [CHR 0xD0, CHR 0xA1],
         pressure = Some (float_mul 1000 hPa_to_mmHg),
         precipitation_type = ''none'', precipitation_amount = Some 0,
         row_id = next_id rows, timestamp = t\<rparr>])"
  using to_float_simps(2)[of 3 float_of_str] to_float_simps(2)[of 2 float_of_str]
    to_float_simps(2)[of 0 float_of_str]
  by (simp add: save_to_db_def)

text \<open>
  A value that \<^verbatim>\<open>float\<close> rejects is not stored: for a temperature that is a list the
  insert raises, the table stays as it was and the poll loop prints the error.
\<close>

lemma unbindable_value_not_stored:
  "read_weather (api_body (JArr [JInt 1]) (JInt 2) (JInt 359) (JInt 1000) (JInt 0))
     = Inr \<lparr>temperature = JArr [JInt 1], wind_speed = JInt 2,
            wind_direction = [CHR 0xD0, CHR 0xA1],
            pressure = float_mul 1000 hPa_to_mmHg,
            precipitation_type = ''none'', precipitation_amount = JInt 0\<rparr>"
  "weather_round float_of_str (0, sample_time)
     (\<lparr>sent = [], replies = [Inr \<lparr>status = 200, payload = Inr
          (api_body (JArr [JInt 1]) (JInt 2) (JInt 359) (JInt 1000) (JInt 0))\<rparr>]\<rparr>, empty_world)
   = (\<lparr>sent = [url], replies = []\<rparr>, empty_world\<lparr>stdout := [Failed StatementError]\<rparr>)"
proof -
  show r: "read_weather (api_body (JArr [JInt 1]) (JInt 2) (JInt 359) (JInt 1000) (JInt 0))
     = Inr \<lparr>temperature = JArr [JInt 1], wind_speed = JInt 2,
            wind_direction = [CHR 0xD0, CHR 0xA1],
            pressure = float_mul 1000 hPa_to_mmHg,
            precipitation_type = ''none'', precipitation_amount = JInt 0\<rparr>"
    using wind_direction_whole[of 359] as_float_int[of 1000]
    by (simp add: read_weather_api_body wind_direction_map_def)
  show "weather_round float_of_str (0, sample_time)
     (\<lparr>sent = [], replies = [Inr \<lparr>status = 200, payload = Inr
          (api_body (JArr [JInt 1]) (JInt 2) (JInt 359) (JInt 1000) (JInt 0))\<rparr>]\<rparr>, empty_world)
   = (\<lparr>sent = [url], replies = []\<rparr>, empty_world\<lparr>stdout := [Failed StatementError]\<rparr>)"
    by (simp add: weather_round_def get_weather_data_cases r save_to_db_def to_float_simps
        empty_world_def)
qed

text \<open>
  Claim C3.  Every row the poll loop stores has \<^verbatim>\<open>precipitation_type\<close> equal to
  \<^verbatim>\<open>rain\<close> when its \<^verbatim>\<open>precipitation_amount\<close>, the float the table holds, is above zero
  and to \<^verbatim>\<open>none\<close> otherwise: a table whose rows obey the rule keeps obeying it through
  any number of poll rounds, whatever the network answers and whichever inserts fail.
  The rule holds of every reading a fetch returns, and the insert of such a reading
  either raises, storing nothing, or appends one row, with the kind of the reading and
  the float of its amount, that obeys the rule.  The witness runs two rounds from an
  empty table: 2.5 mm is stored as rain, an amount 0 as 0.0 and none.
\<close>

theorem stored_precipitation_type:
  assumes "\<forall>r \<in> set (table w). rain_rule (precipitation_amount r) (precipitation_type r)"
  shows "(\<forall>r \<in> set (table (snd (weather_loop float_of_str clocks (net, w)))).
            rain_rule (precipitation_amount r) (precipitation_type r))
    \<and> (\<forall>reading net'. get_weather_data net = (Inr reading, net') \<longrightarrow>
          rain_rule (num_value (precipitation_amount reading)) (precipitation_type reading)
          \<and> (\<forall>utcnow rows.
                save_to_db float_of_str utcnow reading rows = Inl StatementError
                \<or> (\<exists>row. save_to_db float_of_str utcnow reading rows = Inr (rows @ [row])
                     \<and> precipitation_type row = precipitation_type reading
                     \<and> to_float float_of_str (precipitation_amount reading)
                         = Inr (precipitation_amount row)
                     \<and> rain_rule (precipitation_amount row) (precipitation_type row))))"
proof -
  have "rain_rule (num_value (precipitation_amount reading)) (precipitation_type reading)
      \<and> (\<forall>utcnow rows.
            save_to_db float_of_str utcnow reading rows = Inl StatementError
            \<or> (\<exists>row. save_to_db float_of_str utcnow reading rows = Inr (rows @ [row])
                 \<and> precipitation_type row = precipitation_type reading
                 \<and> to_float float_of_str (precipitation_amount reading)
                     = Inr (precipitation_amount row)
                 \<and> rain_rule (precipitation_amount row) (precipitation_type row)))"
    if "get_weather_data net = (Inr reading, net')" for reading net'
  proof -
    from that obtain data where r: "read_weather data = Inr reading"
      by (auto elim!: get_weather_data_Inr)
    have "save_to_db float_of_str utcnow reading rows = Inl StatementError
        \<or> (\<exists>row. save_to_db float_of_str utcnow reading rows = Inr (rows @ [row])
             \<and> precipitation_type row = precipitation_type reading
             \<and> to_float float_of_str (precipitation_amount reading)
                 = Inr (precipitation_amount row)
             \<and> rain_rule (precipitation_amount row) (precipitation_type row))" for utcnow rows
    proof (cases "save_to_db float_of_str utcnow reading rows")
      case (Inl e)
      then show ?thesis using save_to_db_Inl[OF Inl] by simp
    next
      case (Inr stored)
      then show ?thesis using save_to_db_rain[OF r Inr] by auto
    qed
    then show ?thesis using read_weather_rain[OF r] by blast
  qed
  then show ?thesis
    using weather_loop_rain[of "(net, w)" float_of_str clocks] assms by simp
qed

theorem stored_precipitation_type_witness:
  "\<forall>float_of_str.
     table empty_world = []
     \<and> list_all (\<lambda>r. rain_rule (precipitation_amount r) (precipitation_type r))
          (table (snd (weather_loop float_of_str [(0, sample_time), (180000000, sample_time)]
            (\<lparr>sent = [], replies = [Inr \<lparr>status = 200, payload = Inr sample_body\<rparr>,
                                     Inr \<lparr>status = 200, payload = Inr dry_body\<rparr>]\<rparr>,
             empty_world))))
     \<and> map (\<lambda>r. (precipitation_amount r, precipitation_type r))
          (table (snd (weather_loop float_of_str [(0, sample_time), (180000000, sample_time)]
            (\<lparr>sent = [], replies = [Inr \<lparr>status = 200, payload = Inr sample_body\<rparr>,
                                     Inr \<lparr>status = 200, payload = Inr dry_body\<rparr>]\<rparr>,
             empty_world))))
         = [(Some (5 / 2), ''rain''), (Some 0, ''none'')]"
proof (intro allI)
  fix float_of_str :: "string \<Rightarrow> rat option"
  have t: "table empty_world = []"
    by (simp add: empty_world_def)
  then have h: "\<forall>r \<in> set (table empty_world).
      rain_rule (precipitation_amount r) (precipitation_type r)"
    by simp
  have e: "map (\<lambda>r. (precipitation_amount r, precipitation_type r))
        (table (snd (weather_loop float_of_str [(0, sample_time), (180000000, sample_time)]
          (\<lparr>sent = [], replies = [Inr \<lparr>status = 200, payload = Inr sample_body\<rparr>,
                                   Inr \<lparr>status = 200, payload = Inr dry_body\<rparr>]\<rparr>,
           empty_world))))
       = [(Some (5 / 2), ''rain''), (Some 0, ''none'')]"
    by (simp add: weather_loop_def weather_round_def get_weather_data_cases read_sample_body
        read_dry_body save_sample_weather save_dry_weather empty_world_def sample_row_def)
  show "table empty_world = []
     \<and> list_all (\<lambda>r. rain_rule (precipitation_amount r) (precipitation_type r))
          (table (snd (weather_loop float_of_str [(0, sample_time), (180000000, sample_time)]
            (\<lparr>sent = [], replies = [Inr \<lparr>status = 200, payload = Inr sample_body\<rparr>,
                                     Inr \<lparr>status = 200, payload = Inr dry_body\<rparr>]\<rparr>,
             empty_world))))
     \<and> map (\<lambda>r. (precipitation_amount r, precipitation_type r))
          (table (snd (weather_loop float_of_str [(0, sample_time), (180000000, sample_time)]
            (\<lparr>sent = [], replies = [Inr \<lparr>status = 200, payload = Inr sample_body\<rparr>,
                                     Inr \<lparr>status = 200, payload = Inr dry_body\<rparr>]\<rparr>,
             empty_world))))
         = [(Some (5 / 2), ''rain''), (Some 0, ''none'')]"
    using t stored_precipitation_type[OF h, THEN conjunct1] e
    by (simp only: list_all_iff simp_thms)
qed

subsection \<open>Pressure\<close>

text \<open>
  An int in the response is converted to a float before it is multiplied, which rounds
  it when it has more than 53 bits; the product is then within a relative
  \<open>2 powi - 51\<close> of the real product.
\<close>

lemma pressure_error_rounded:
  assumes "1 \<le> \<bar>v\<bar>"
  shows "\<bar>float_mul (rnd v) hPa_to_mmHg - v * (75006 / 100000)\<bar>
    \<le> \<bar>v * (75006 / 100000)\<bar> / 2 ^ 51"
proof -
  define c0 :: rat where "c0 = 75006 / 100000"
  define u :: rat where "u = 1 / 2 ^ 53"
  define p where "p = rnd v"
  have u: "0 < u" "u \<le> 1 / 8" by (simp_all add: u_def)
  have c0: "0 < c0" by (simp add: c0_def)
  have "(2::rat) powi (- 1022) \<le> 2 powi 0" by (rule power_int_increasing) simp_all
  then have "2 powi (- 1022) \<le> \<bar>v\<bar>" using assms by simp
  then have pv: "\<bar>p - v\<bar> \<le> \<bar>v\<bar> * u"
    using rnd_rel_error[of v] by (simp add: p_def u_def)
  have "\<bar>v\<bar> * u \<le> \<bar>v\<bar> * (1 / 8)" using u by (intro mult_left_mono) simp_all
  then have "\<bar>p - v\<bar> \<le> \<bar>v\<bar> / 8" using pv by simp
  then have "1 / 2 \<le> \<bar>p\<bar>" using assms by linarith
  moreover have "(2::rat) powi (- 1021) \<le> 2 powi (- 1)" by (rule power_int_increasing) simp_all
  ultimately have "2 powi (- 1021) \<le> \<bar>p\<bar>" by (simp add: power_int_minus_divide)
  then have "\<bar>float_mul p hPa_to_mmHg - p * c0\<bar> \<le> \<bar>p * c0\<bar> / 2 ^ 52"
    unfolding c0_def by (rule pressure_error)
  then have 1: "\<bar>float_mul p hPa_to_mmHg - p * c0\<bar> \<le> \<bar>p\<bar> * (c0 * (2 * u))"
    using c0 by (simp add: abs_mult u_def)
  have "\<bar>p\<bar> \<le> \<bar>v\<bar> * (1 + u)" using pv by (simp add: algebra_simps)
  then have "\<bar>p\<bar> * (c0 * (2 * u)) \<le> \<bar>v\<bar> * (1 + u) * (c0 * (2 * u))"
    using u c0 by (intro mult_right_mono) simp_all
  then have 2: "\<bar>float_mul p hPa_to_mmHg - p * c0\<bar> \<le> \<bar>v\<bar> * (1 + u) * (c0 * (2 * u))"
    using 1 by linarith
  have "\<bar>p * c0 - v * c0\<bar> = \<bar>p - v\<bar> * c0"
    using c0 by (simp add: abs_mult flip: left_diff_distrib)
  also have "\<dots> \<le> \<bar>v\<bar> * u * c0" using pv c0 by (intro mult_right_mono) simp_all
  finally have 3: "\<bar>p * c0 - v * c0\<bar> \<le> \<bar>v\<bar> * u * c0" .
  have "\<bar>float_mul p hPa_to_mmHg - v * c0\<bar>
      \<le> \<bar>float_mul p hPa_to_mmHg - p * c0\<bar> + \<bar>p * c0 - v * c0\<bar>" by linarith
  also have "\<dots> \<le> \<bar>v\<bar> * (1 + u) * (c0 * (2 * u)) + \<bar>v\<bar> * u * c0"
    using 2 3 by linarith
  also have "\<dots> = \<bar>v\<bar> * c0 * u * (3 + 2 * u)" by (simp add: algebra_simps)
  also have "\<dots> \<le> \<bar>v\<bar> * c0 * u * 4"
    using u c0 by (intro mult_left_mono) simp_all
  also have "\<dots> = \<bar>v * c0\<bar> / 2 ^ 51"
    using c0 by (simp add: abs_mult u_def)
  finally show ?thesis by (simp add: p_def c0_def)
qed

text \<open>The float operand of the multiplication and the number in the response.\<close>

lemma as_float_value:
  assumes "as_float hPa = Inr p"
  obtains (float) x where "hPa = JFloat x" "num_value hPa = Some p"
  | (whole) i where "\<forall>x. hPa \<noteq> JFloat x" "num_value hPa = Some (of_int i)" "p = rnd (of_int i)"
proof (cases hPa)
  case (JFloat x)
  then show ?thesis using assms float by (simp add: num_value_def)
next
  case (JInt i)
  then show ?thesis
    using assms whole[of i] by (simp add: num_value_def float_of_int_def Let_def split: if_splits)
next
  case (JBool b)
  then show ?thesis
    using assms whole[of "if b then 1 else 0"]
    by (simp add: num_value_def float_of_int_def Let_def split: if_splits)
qed (use assms in simp_all)

lemma float_mul_zero: "float_mul 0 c = 0"
  by (simp add: float_mul_def rnd_def)

lemma converted_pressure:
  assumes "as_float hPa = Inr p"
  shows "\<exists>value. num_value hPa = Some value
    \<and> (2 powi (- 1021) \<le> \<bar>value\<bar> \<longrightarrow>
         \<bar>float_mul p hPa_to_mmHg - value * (75006 / 100000)\<bar>
           \<le> \<bar>value * (75006 / 100000)\<bar> / 2 ^ 51)
    \<and> (\<bar>value\<bar> < 2 ^ 53 \<or> (\<exists>x. hPa = JFloat x) \<longrightarrow> p = value)
    \<and> (p = value \<and> 2 powi (- 1021) \<le> \<bar>value\<bar> \<longrightarrow>
         \<bar>float_mul p hPa_to_mmHg - value * (75006 / 100000)\<bar>
           \<le> \<bar>value * (75006 / 100000)\<bar> / 2 ^ 52)
    \<and> (value = 0 \<longrightarrow> float_mul p hPa_to_mmHg = 0)"
  using assms
proof (cases rule: as_float_value)
  case (float x)
  have "\<bar>float_mul p hPa_to_mmHg - p * (75006 / 100000)\<bar> \<le> \<bar>p * (75006 / 100000)\<bar> / 2 ^ 51"
    if "2 powi (- 1021) \<le> \<bar>p\<bar>"
  proof -
    have "\<bar>p * (75006 / 100000)\<bar> / 2 ^ 52 \<le> \<bar>p * (75006 / 100000)\<bar> / 2 ^ 51"
      by (intro divide_left_mono) simp_all
    then show ?thesis using pressure_error[OF that] by linarith
  qed
  then show ?thesis using float pressure_error[of p] by (simp add: float_mul_zero)
next
  case (whole i)
  have a: "\<bar>float_mul p hPa_to_mmHg - of_int i * (75006 / 100000)\<bar>
      \<le> \<bar>of_int i * (75006 / 100000)\<bar> / 2 ^ 51"
    if "2 powi (- 1021) \<le> \<bar>of_int i :: rat\<bar>"
  proof -
    have "i \<noteq> 0"
      using that zero_less_power_int[of "2::rat" "- 1021"] by (intro notI) simp
    then have "1 \<le> \<bar>i\<bar>" by simp
    then have "(of_int 1 :: rat) \<le> of_int \<bar>i\<bar>" by (simp only: of_int_le_iff)
    then have "1 \<le> \<bar>of_int i :: rat\<bar>" by simp
    then show ?thesis unfolding whole(3) by (rule pressure_error_rounded)
  qed
  have b: "p = of_int i" if "\<bar>of_int i :: rat\<bar> < 2 ^ 53"
  proof -
    have "(of_int \<bar>i\<bar> :: rat) < of_int (2 ^ 53)" using that by simp
    then have "\<bar>i\<bar> < 2 ^ 53" by (simp only: of_int_less_iff)
    then show ?thesis unfolding whole(3) by (rule rnd_of_int)
  qed
  have c: "float_mul p hPa_to_mmHg = 0" if "(of_int i :: rat) = 0"
    using that by (simp add: whole(3) rnd_def float_mul_zero)
  show ?thesis
    using whole(1,2) a b c pressure_error[of "of_int i"] by auto
qed

text \<open>
  The bound \<open>2 powi - 52\<close> of a single rounding does not hold for every int: the pressure
  9007199254748989 is converted to the float 9007199254748988 and the product is
  rounded again.
\<close>

lemma int_pressure_rounds_twice:
  "as_float (JInt 9007199254748989) = Inr 9007199254748988"
  "float_mul 9007199254748988 hPa_to_mmHg = 6755939873017025"
  "\<bar>9007199254748989 * (75006 / 100000 :: rat)\<bar> / 2 ^ 52
     < \<bar>6755939873017025 - 9007199254748989 * (75006 / 100000)\<bar>"
proof -
  have "rnd (of_int 9007199254748989) = of_int 4503599627374494 * 2 powi 1"
    by (rule rnd_eval[where e = 53])
       (simp_all add: round_half_even_def Let_def floor_numeral_div_rat)
  then have r: "rnd (of_int 9007199254748989) = 9007199254748988" by simp
  have "\<bar>9007199254748988 :: rat\<bar> < 2 ^ 54" by simp
  also have "(2::rat) ^ 54 < 2 ^ 1024" by (rule power_strict_increasing) simp_all
  finally have "\<not> (2::rat) ^ 1024 \<le> \<bar>9007199254748988\<bar>" by simp
  then show "as_float (JInt 9007199254748989) = Inr 9007199254748988"
    using r by (simp add: float_of_int_def Let_def)
  have "rnd (9007199254748988 * (1688984968252757 / 2251799813685248))
      = of_int 6755939873017025 * 2 powi 0"
    by (rule rnd_eval[where e = 52])
       (simp_all add: round_half_even_def Let_def floor_numeral_div_rat)
  then show "float_mul 9007199254748988 hPa_to_mmHg = 6755939873017025"
    by (simp add: float_mul_def hPa_to_mmHg_value)
  show "\<bar>9007199254748989 * (75006 / 100000 :: rat)\<bar> / 2 ^ 52
     < \<bar>6755939873017025 - 9007199254748989 * (75006 / 100000)\<bar>"
    by simp
qed

text \<open>
  Claim C9, as amended.  The stored pressure is the float product of the hourly
  pressure, converted to a float when the response gives an int, and the float
  \<^verbatim>\<open>0.75006\<close>.  For a value in the normal range of the floats it is within a relative
  \<open>2 powi - 51\<close> of the real number \<open>value * 0.75006\<close>, and within \<open>2 powi - 52\<close> when the
  value is a float or an int below \<open>2 ^ 53\<close> in magnitude, which the conversion keeps as
  it is; it is 0 for the value 0.  The insert stores that float as it is.
\<close>

theorem pressure_conversion:
  assumes "read_weather data = Inr w"
    and "hourly_first data ''pressure_msl'' = Inr hPa"
  shows "\<exists>value p. num_value hPa = Some value \<and> as_float hPa = Inr p
    \<and> pressure w = float_mul p hPa_to_mmHg
    \<and> (2 powi (- 1021) \<le> \<bar>value\<bar> \<longrightarrow>
         \<bar>pressure w - value * (75006 / 100000)\<bar> \<le> \<bar>value * (75006 / 100000)\<bar> / 2 ^ 51)
    \<and> (\<bar>value\<bar> < 2 ^ 53 \<or> (\<exists>x. hPa = JFloat x) \<longrightarrow> p = value)
    \<and> (p = value \<and> 2 powi (- 1021) \<le> \<bar>value\<bar> \<longrightarrow>
         \<bar>pressure w - value * (75006 / 100000)\<bar> \<le> \<bar>value * (75006 / 100000)\<bar> / 2 ^ 52)
    \<and> (value = 0 \<longrightarrow> pressure w = 0)
    \<and> (\<forall>float_of_str utcnow rows stored.
          save_to_db float_of_str utcnow w rows = Inr stored \<longrightarrow>
          stored \<noteq> [] \<and> butlast stored = rows \<and> pressure (last stored) = Some (pressure w))"
proof -
  from assms(1) obtain hourly series hPa' p where
    g: "getitem_key data ''hourly'' = Inr hourly"
      "getitem_key hourly ''pressure_msl'' = Inr series"
      "getitem_0 series = Inr hPa'" "as_float hPa' = Inr p"
      "pressure w = float_mul p hPa_to_mmHg"
    by (rule read_weather_Inr)
  have "hourly_first data ''pressure_msl'' = Inr hPa'"
    using g by (simp add: hourly_first_def)
  with assms(2) have "hPa' = hPa" by simp
  then have p: "as_float hPa = Inr p" using g(4) by simp
  from converted_pressure[OF p] obtain "value" where
    v: "num_value hPa = Some value"
      "2 powi (- 1021) \<le> \<bar>value\<bar> \<longrightarrow>
         \<bar>float_mul p hPa_to_mmHg - value * (75006 / 100000)\<bar>
           \<le> \<bar>value * (75006 / 100000)\<bar> / 2 ^ 51"
      "\<bar>value\<bar> < 2 ^ 53 \<or> (\<exists>x. hPa = JFloat x) \<longrightarrow> p = value"
      "p = value \<and> 2 powi (- 1021) \<le> \<bar>value\<bar> \<longrightarrow>
         \<bar>float_mul p hPa_to_mmHg - value * (75006 / 100000)\<bar>
           \<le> \<bar>value * (75006 / 100000)\<bar> / 2 ^ 52"
      "value = 0 \<longrightarrow> float_mul p hPa_to_mmHg = 0"
    by blast
  have s: "stored \<noteq> [] \<and> butlast stored = rows \<and> pressure (last stored) = Some (pressure w)"
    if "save_to_db float_of_str utcnow w rows = Inr stored" for float_of_str utcnow rows stored
    using that by (auto elim!: save_to_db_Inr)
  have b: "2 powi (- 1021) \<le> \<bar>value\<bar> \<longrightarrow>
         \<bar>pressure w - value * (75006 / 100000)\<bar> \<le> \<bar>value * (75006 / 100000)\<bar> / 2 ^ 51"
      "p = value \<and> 2 powi (- 1021) \<le> \<bar>value\<bar> \<longrightarrow>
         \<bar>pressure w - value * (75006 / 100000)\<bar> \<le> \<bar>value * (75006 / 100000)\<bar> / 2 ^ 52"
      "value = 0 \<longrightarrow> pressure w = 0"
    using v(2,4,5) by (simp_all only: g(5))
  show ?thesis
    by (intro exI[of _ "value"] exI[of _ p] conjI allI impI v(1) p g(5) b v(3))
       (use s in blast)+
qed

theorem pressure_conversion_witness:
  "\<forall>float_of_str.
     read_weather sample_body = Inr sample_weather
     \<and> hourly_first sample_body ''pressure_msl'' = Inr (JFloat (4053 / 4))
     \<and> num_value (JFloat (4053 / 4)) = Some (4053 / 4)
     \<and> pressure sample_weather = float_mul (4053 / 4) hPa_to_mmHg
     \<and> \<bar>pressure sample_weather - 4053 / 4 * (75006 / 100000)\<bar>
         \<le> \<bar>4053 / 4 * (75006 / 100000)\<bar> / 2 ^ 52
     \<and> save_to_db float_of_str 0 sample_weather [] = Inr [sample_row 1 0]
     \<and> pressure (last [sample_row 1 0]) = Some (pressure sample_weather)"
proof (intro allI)
  fix float_of_str :: "string \<Rightarrow> rat option"
  have h: "hourly_first sample_body ''pressure_msl'' = Inr (JFloat (4053 / 4))"
    by (simp add: sample_body_def hourly_first_api_body)
  have n: "num_value (JFloat (4053 / 4)) = Some (4053 / 4)" by (simp add: num_value_def)
  have "(2::rat) powi (- 1021) \<le> 2 powi 0" by (rule power_int_increasing) simp_all
  then have big: "(2::rat) powi (- 1021) \<le> \<bar>4053 / 4\<bar>" by simp
  have s: "save_to_db float_of_str 0 sample_weather [] = Inr [sample_row 1 0]"
    by (simp add: save_sample_weather next_id_def)
  from pressure_conversion[OF read_sample_body h] obtain "value" p where
    t: "num_value (JFloat (4053 / 4)) = Some value" "as_float (JFloat (4053 / 4)) = Inr p"
      "pressure sample_weather = float_mul p hPa_to_mmHg"
      "p = value \<and> 2 powi (- 1021) \<le> \<bar>value\<bar> \<longrightarrow>
         \<bar>pressure sample_weather - value * (75006 / 100000)\<bar>
           \<le> \<bar>value * (75006 / 100000)\<bar> / 2 ^ 52"
      "\<forall>float_of_str utcnow rows stored.
          save_to_db float_of_str utcnow sample_weather rows = Inr stored \<longrightarrow>
          stored \<noteq> [] \<and> butlast stored = rows
          \<and> pressure (last stored) = Some (pressure sample_weather)"
    by blast
  from t(1) n have v: "value = 4053 / 4" by simp
  from t(2) have p: "p = 4053 / 4" by simp
  from t(3) p have 1: "pressure sample_weather = float_mul (4053 / 4) hPa_to_mmHg" by simp
  from t(4) v p big have 2: "\<bar>pressure sample_weather - 4053 / 4 * (75006 / 100000)\<bar>
       \<le> \<bar>4053 / 4 * (75006 / 100000)\<bar> / 2 ^ 52" by simp
  from t(5) s have 3: "pressure (last [sample_row 1 0]) = Some (pressure sample_weather)" by blast
  from read_sample_body h n 1 2 s 3
  show "read_weather sample_body = Inr sample_weather
     \<and> hourly_first sample_body ''pressure_msl'' = Inr (JFloat (4053 / 4))
     \<and> num_value (JFloat (4053 / 4)) = Some (4053 / 4)
     \<and> pressure sample_weather = float_mul (4053 / 4) hPa_to_mmHg
     \<and> \<bar>pressure sample_weather - 4053 / 4 * (75006 / 100000)\<bar>
         \<le> \<bar>4053 / 4 * (75006 / 100000)\<bar> / 2 ^ 52
     \<and> save_to_db float_of_str 0 sample_weather [] = Inr [sample_row 1 0]
     \<and> pressure (last [sample_row 1 0]) = Some (pressure sample_weather)"
    by (intro conjI)
qed

text \<open>
  The example of claim C9 fails: 1013.25 hPa is stored as 759.998295 mmHg, which is
  below 760 and so not about 760.24.
\<close>

theorem standard_atmosphere_pressure:
  "read_weather sample_body = Inr sample_weather
   \<and> hourly_first sample_body ''pressure_msl'' = Inr (JFloat (4053 / 4))
   \<and> pressure sample_weather = 6685015699539477 / 8796093022208
   \<and> pressure sample_weather < 760
   \<and> \<not> (76024 / 100 \<le> pressure sample_weather \<and> pressure sample_weather < 76025 / 100)"
proof -
  have h: "hourly_first sample_body ''pressure_msl'' = Inr (JFloat (4053 / 4))"
    by (simp add: sample_body_def hourly_first_api_body)
  have p: "pressure sample_weather = 6685015699539477 / 8796093022208"
    by (simp add: sample_weather_def)
  have "pressure sample_weather < 760"
    "\<not> (76024 / 100 \<le> pressure sample_weather \<and> pressure sample_weather < 76025 / 100)"
    unfolding p by simp_all
  with read_sample_body h p show ?thesis by (intro conjI)
qed

subsection \<open>Failures\<close>

lemma getitem_key_lookup:
  "getitem_key v k = Inr x \<Longrightarrow> lookup_path v (k # ks) = lookup_path x ks"
  by (cases v) (auto split: option.splits)

lemma read_weather_fields:
  assumes "read_weather data = Inr w"
  shows "\<not> missing_field data"
proof -
  from assms obtain current hourly degrees series rain where
    g: "getitem_key data ''current_weather'' = Inr current"
      "getitem_key data ''hourly'' = Inr hourly"
      "getitem_key current ''winddirection'' = Inr degrees"
      "getitem_key current ''temperature'' = Inr (temperature w)"
      "getitem_key current ''windspeed'' = Inr (wind_speed w)"
      "getitem_key hourly ''pressure_msl'' = Inr series"
      "getitem_key hourly ''precipitation'' = Inr rain"
    by (rule read_weather_Inr)
  have "lookup_path data [''current_weather'', ''temperature''] \<noteq> None"
    "lookup_path data [''current_weather'', ''windspeed''] \<noteq> None"
    "lookup_path data [''current_weather'', ''winddirection''] \<noteq> None"
    "lookup_path data [''hourly'', ''pressure_msl''] \<noteq> None"
    "lookup_path data [''hourly'', ''precipitation''] \<noteq> None"
    using g by (simp_all add: getitem_key_lookup)
  then show ?thesis by (simp add: missing_field_def expected_fields_def)
qed

lemma missing_field_raises: "missing_field data \<Longrightarrow> isl (read_weather data)"
  using read_weather_fields[of data] by (cases "read_weather data") auto

text \<open>
  Claim C8, as amended.  A fetch sends exactly one GET and consumes exactly one reply,
  whatever happens.  A request that fails, a payload that cannot be decoded and a body
  that lacks an expected field each make the fetch return one error, as does any other
  failure to read the body, and the poll loop prints that error, storing nothing.  The
  status code is never read: changing it changes nothing.
\<close>

theorem fetch_failure_surfaces:
  "sent (snd (get_weather_data net)) = sent net @ [url]
   \<and> replies (snd (get_weather_data net)) = tl (replies net)
   \<and> (replies net = [] \<longrightarrow> fst (get_weather_data net) = Inl ClientError)
   \<and> (\<forall>e rest. replies net = Inl e # rest \<longrightarrow> fst (get_weather_data net) = Inl e)
   \<and> (\<forall>r rest e. replies net = Inr r # rest \<and> payload r = Inl e \<longrightarrow>
         fst (get_weather_data net) = Inl e)
   \<and> (\<forall>r rest data. replies net = Inr r # rest \<and> payload r = Inr data \<and> missing_field data \<longrightarrow>
         isl (fst (get_weather_data net)))
   \<and> (\<forall>r rest data. replies net = Inr r # rest \<and> payload r = Inr data \<longrightarrow>
         fst (get_weather_data net) = read_weather data)
   \<and> (\<forall>r rest code. replies net = Inr r # rest \<longrightarrow>
         fst (get_weather_data (net\<lparr>replies := Inr (r\<lparr>status := code\<rparr>) # rest\<rparr>))
         = fst (get_weather_data net))
   \<and> (\<forall>e. fst (get_weather_data net) = Inl e \<longrightarrow>
         weather_round float_of_str clock (net, w)
         = (snd (get_weather_data net), w\<lparr>stdout := stdout w @ [Failed e]\<rparr>))"
proof -
  have "weather_round float_of_str clock (net, w)
      = (snd (get_weather_data net), w\<lparr>stdout := stdout w @ [Failed e]\<rparr>)"
    if "fst (get_weather_data net) = Inl e" for e
    using that by (cases "get_weather_data net") (simp add: weather_round_def)
  then show ?thesis
    by (simp add: get_weather_data_cases missing_field_raises)
qed

theorem fetch_failure_surfaces_witness:
  "\<forall>float_of_str.
     fst (get_weather_data \<lparr>sent = [], replies = []\<rparr>) = Inl ClientError
     \<and> fst (get_weather_data \<lparr>sent = [], replies = [Inl ClientError]\<rparr>) = Inl ClientError
     \<and> fst (get_weather_data
          \<lparr>sent = [], replies = [Inr \<lparr>status = 502, payload = Inl ContentTypeError\<rparr>]\<rparr>)
         = Inl ContentTypeError
     \<and> missing_field error_body
     \<and> isl (fst (get_weather_data
          \<lparr>sent = [], replies = [Inr \<lparr>status = 400, payload = Inr error_body\<rparr>]\<rparr>))
     \<and> weather_round float_of_str (0, sample_time)
          (\<lparr>sent = [], replies = [Inl ClientError]\<rparr>, empty_world)
         = (\<lparr>sent = [url], replies = []\<rparr>, empty_world\<lparr>stdout := [Failed ClientError]\<rparr>)"
proof (intro allI)
  fix float_of_str :: "string \<Rightarrow> rat option"
  have m: "missing_field error_body"
    by (simp add: missing_field_def expected_fields_def error_body_def)
  have 1: "fst (get_weather_data \<lparr>sent = [], replies = []\<rparr>) = Inl ClientError"
    using fetch_failure_surfaces[of "\<lparr>sent = [], replies = []\<rparr>"
        float_of_str "(0, sample_time)" empty_world] by simp
  have 2: "fst (get_weather_data \<lparr>sent = [], replies = [Inl ClientError]\<rparr>) = Inl ClientError"
    using fetch_failure_surfaces[of "\<lparr>sent = [], replies = [Inl ClientError]\<rparr>"
        float_of_str "(0, sample_time)" empty_world] by simp
  have 3: "fst (get_weather_data
        \<lparr>sent = [], replies = [Inr \<lparr>status = 502, payload = Inl ContentTypeError\<rparr>]\<rparr>)
       = Inl ContentTypeError"
    using fetch_failure_surfaces[of
        "\<lparr>sent = [], replies = [Inr \<lparr>status = 502, payload = Inl ContentTypeError\<rparr>]\<rparr>"
        float_of_str "(0, sample_time)" empty_world]
    by simp
  have 4: "isl (fst (get_weather_data
        \<lparr>sent = [], replies = [Inr \<lparr>status = 400, payload = Inr error_body\<rparr>]\<rparr>))"
    using fetch_failure_surfaces[of
        "\<lparr>sent = [], replies = [Inr \<lparr>status = 400, payload = Inr error_body\<rparr>]\<rparr>"
        float_of_str "(0, sample_time)" empty_world] m
    by auto
  have 5: "weather_round float_of_str (0, sample_time)
        (\<lparr>sent = [], replies = [Inl ClientError]\<rparr>, empty_world)
       = (\<lparr>sent = [url], replies = []\<rparr>, empty_world\<lparr>stdout := [Failed ClientError]\<rparr>)"
    using fetch_failure_surfaces[of "\<lparr>sent = [], replies = [Inl ClientError]\<rparr>"
        float_of_str "(0, sample_time)" empty_world] 2
    by (simp add: empty_world_def)
  from 1 2 3 m 4 5
  show "fst (get_weather_data \<lparr>sent = [], replies = []\<rparr>) = Inl ClientError
     \<and> fst (get_weather_data \<lparr>sent = [], replies = [Inl ClientError]\<rparr>) = Inl ClientError
     \<and> fst (get_weather_data
          \<lparr>sent = [], replies = [Inr \<lparr>status = 502, payload = Inl ContentTypeError\<rparr>]\<rparr>)
         = Inl ContentTypeError
     \<and> missing_field error_body
     \<and> isl (fst (get_weather_data
          \<lparr>sent = [], replies = [Inr \<lparr>status = 400, payload = Inr error_body\<rparr>]\<rparr>))
     \<and> weather_round float_of_str (0, sample_time)
          (\<lparr>sent = [], replies = [Inl ClientError]\<rparr>, empty_world)
         = (\<lparr>sent = [url], replies = []\<rparr>, empty_world\<lparr>stdout := [Failed ClientError]\<rparr>)"
    by (intro conjI)
qed

text \<open>
  Claim C8 as stated fails for a non-2xx response: a response with status 500 whose
  body has the expected fields is read like any other.
\<close>

theorem non_2xx_accepted:
  "get_weather_data \<lparr>sent = [], replies = [Inr \<lparr>status = 500, payload = Inr sample_body\<rparr>]\<rparr>
   = (Inr sample_weather, \<lparr>sent = [url], replies = []\<rparr>)"
  by (simp add: get_weather_data_cases read_sample_body)

section \<open>The newest rows\<close>

lemma mset_insert_desc: "mset (insert_desc r xs) = add_mset r (mset xs)"
  by (induction xs) simp_all

lemma set_insert_desc: "set (insert_desc r xs) = insert r (set xs)"
  by (induction xs) auto

lemma newest_first_insert_desc:
  "newest_first xs \<Longrightarrow> newest_first (insert_desc r xs)"
  unfolding newest_first_def
  by (induction xs) (auto simp: set_insert_desc)

lemma mset_order_by: "mset (order_by_timestamp_desc rows) = mset rows"
  unfolding order_by_timestamp_desc_def
  by (induction rows) (simp_all add: mset_insert_desc)

lemma newest_first_order_by: "newest_first (order_by_timestamp_desc rows)"
  unfolding order_by_timestamp_desc_def
proof (induction rows)
  case Nil
  show ?case by (simp add: newest_first_def)
next
  case (Cons r rows)
  then show ?case by (simp add: newest_first_insert_desc)
qed

lemma length_order_by: "length (order_by_timestamp_desc rows) = length rows"
  using mset_order_by[of rows] by (metis size_mset)

text \<open>
  What the limit returns of any arrangement of the table that is newest first,
  whichever way it orders rows of equal timestamps.
\<close>

lemma limit_newest_first:
  assumes perm: "mset s = mset rows" and desc: "newest_first s"
  shows "length (limit n s) = min n (length rows)
   \<and> newest_first (limit n s)
   \<and> mset (limit n s) \<subseteq># mset rows
   \<and> (\<forall>old. old \<in># mset rows - mset (limit n s) \<longrightarrow>
         (\<forall>r \<in> set (limit n s). timestamp old \<le> timestamp r))
   \<and> (length rows \<le> n \<longrightarrow> mset (limit n s) = mset rows)
   \<and> (rows = [] \<longrightarrow> limit n s = [])"
proof -
  have ls: "length s = length rows"
    using perm by (metis size_mset)
  have split: "mset (take n s) + mset (drop n s) = mset rows"
    using perm by (simp flip: mset_append)
  have len: "length (take n s) = min n (length rows)"
    by (simp add: ls min.commute)
  have "sorted_wrt (\<lambda>a b. timestamp b \<le> timestamp a) s"
    using desc by (simp add: newest_first_def)
  then have sorted: "sorted_wrt (\<lambda>a b. timestamp b \<le> timestamp a) (take n s)"
      "\<forall>x \<in> set (take n s). \<forall>y \<in> set (drop n s). timestamp y \<le> timestamp x"
    using sorted_wrt_append[of "\<lambda>a b. timestamp b \<le> timestamp a" "take n s" "drop n s"]
    by simp_all
  then have nf: "newest_first (take n s)"
    by (simp add: newest_first_def)
  have sub: "mset (take n s) \<subseteq># mset rows"
    using split by (metis mset_subset_eq_add_left)
  have rest: "mset rows - mset (take n s) = mset (drop n s)"
    using split by (metis add_diff_cancel_left')
  have older: "timestamp old \<le> timestamp r"
    if "old \<in># mset rows - mset (take n s)" "r \<in> set (take n s)" for old r
  proof -
    have "old \<in> set (drop n s)" using that(1) by (simp add: rest)
    with sorted(2) that(2) show ?thesis by blast
  qed
  have all: "mset (take n s) = mset rows" if "length rows \<le> n"
    using that perm by (simp add: ls)
  have empty: "take n s = []" if "rows = []"
    using that ls by simp
  show ?thesis
    unfolding limit_def using len nf sub older all empty by blast
qed

text \<open>
  Claim C4.  The query behind the export, for any limit \<open>n\<close> and any table: it returns
  \<open>min n (length rows)\<close> rows of the table, newest first, and no row left out is newer
  than a row returned; all rows when the table has at most \<open>n\<close>, none when it is empty.
  The witness takes three rows and \<open>n = 10\<close>: exactly those three, newest first.
\<close>

theorem most_recent_newest_first:
  "length (most_recent n rows) = min n (length rows)
   \<and> newest_first (most_recent n rows)
   \<and> mset (most_recent n rows) \<subseteq># mset rows
   \<and> (\<forall>old. old \<in># mset rows - mset (most_recent n rows) \<longrightarrow>
         (\<forall>r \<in> set (most_recent n rows). timestamp old \<le> timestamp r))
   \<and> (length rows \<le> n \<longrightarrow> mset (most_recent n rows) = mset rows)
   \<and> (rows = [] \<longrightarrow> most_recent n rows = [])"
  unfolding most_recent_def
  using mset_order_by newest_first_order_by by (rule limit_newest_first)

theorem most_recent_newest_first_witness:
  "most_recent 10 [sample_row 1 20, sample_row 2 10, sample_row 3 30]
     = [sample_row 3 30, sample_row 1 20, sample_row 2 10]
   \<and> length (most_recent 10 [sample_row 1 20, sample_row 2 10, sample_row 3 30]) = 3
   \<and> newest_first (most_recent 10 [sample_row 1 20, sample_row 2 10, sample_row 3 30])
   \<and> mset (most_recent 10 [sample_row 1 20, sample_row 2 10, sample_row 3 30])
       = mset [sample_row 1 20, sample_row 2 10, sample_row 3 30]
   \<and> most_recent 10 [] = []
   \<and> length (most_recent 2 [sample_row 1 20, sample_row 2 10, sample_row 3 30]) = 2"
proof -
  have ts: "timestamp (sample_row i t) = t" for i t
    by (simp add: sample_row_def)
  have 1: "most_recent 10 [sample_row 1 20, sample_row 2 10, sample_row 3 30]
     = [sample_row 3 30, sample_row 1 20, sample_row 2 10]"
    by (simp add: most_recent_def limit_def order_by_timestamp_desc_def ts)
  note t3 = most_recent_newest_first[of 10 "[sample_row 1 20, sample_row 2 10, sample_row 3 30]"]
  note t2 = most_recent_newest_first[of 2 "[sample_row 1 20, sample_row 2 10, sample_row 3 30]"]
  note t0 = most_recent_newest_first[of 10 "[]"]
  have 2: "length (most_recent 10 [sample_row 1 20, sample_row 2 10, sample_row 3 30]) = 3"
    using t3 by simp
  have 3: "newest_first (most_recent 10 [sample_row 1 20, sample_row 2 10, sample_row 3 30])"
    using t3 by blast
  have 4: "mset (most_recent 10 [sample_row 1 20, sample_row 2 10, sample_row 3 30])
       = mset [sample_row 1 20, sample_row 2 10, sample_row 3 30]"
    using t3 by simp
  have 5: "most_recent 10 [] = []" using t0 by simp
  have 6: "length (most_recent 2 [sample_row 1 20, sample_row 2 10, sample_row 3 30]) = 2"
    using t2 by simp
  from 1 2 3 4 5 6 show ?thesis by (intro conjI)
qed

section \<open>The request sent\<close>

lemma hourly_metrics_value:
  "hourly_metrics =
     [''temperature_2m'', ''relativehumidity_2m'', ''windspeed_10m'',
      ''winddirection_10m'', ''pressure_msl'', ''precipitation'']"
  by (simp add: hourly_metrics_def params_def)

lemma url_value:
  "url = ''https://api.open-meteo.com/v1/forecast?latitude=55.69782222''
       @ ''&longitude=37.36156389&current_weather=True''
       @ ''&hourly=temperature_2m%2Crelativehumidity_2m%2Cwindspeed_10m''
       @ ''%2Cwinddirection_10m%2Cpressure_msl%2Cprecipitation''"
  by (simp add: url_def base_url_def urlencode_def params_def quote_plus_def quote_char_def
      unreserved_def hex_digit_def SKOLTECH_LATITUDE_def SKOLTECH_LONGITUDE_def)

text \<open>
  Claim C5, as amended.  A fetch sends one GET, to the base URL followed by the four
  parameters \<^verbatim>\<open>latitude\<close>, \<^verbatim>\<open>longitude\<close>, \<^verbatim>\<open>current_weather\<close> and \<^verbatim>\<open>hourly\<close>.  The
  coordinates are the two constants, \<^verbatim>\<open>current_weather\<close> is the boolean true, which
  \<^verbatim>\<open>urlencode\<close> writes \<^verbatim>\<open>True\<close>, and \<^verbatim>\<open>hourly\<close> is six metric names joined by commas.
\<close>

theorem request_parameters:
  "sent (snd (get_weather_data net)) = sent net @ [url]
   \<and> url = base_url @ ''?'' @ urlencode params
   \<and> map fst params = [''latitude'', ''longitude'', ''current_weather'', ''hourly'']
   \<and> map_of params ''latitude'' = Some SKOLTECH_LATITUDE
   \<and> map_of params ''longitude'' = Some SKOLTECH_LONGITUDE
   \<and> map_of params ''current_weather'' = Some (Boolean True)
   \<and> py_str (Boolean True) = ''True''
   \<and> map_of params ''hourly'' = Some (Text (join '','' hourly_metrics))
   \<and> hourly_metrics =
       [''temperature_2m'', ''relativehumidity_2m'', ''windspeed_10m'',
        ''winddirection_10m'', ''pressure_msl'', ''precipitation'']
   \<and> length hourly_metrics = 6
   \<and> url = ''https://api.open-meteo.com/v1/forecast?latitude=55.69782222''
       @ ''&longitude=37.36156389&current_weather=True''
       @ ''&hourly=temperature_2m%2Crelativehumidity_2m%2Cwindspeed_10m''
       @ ''%2Cwinddirection_10m%2Cpressure_msl%2Cprecipitation''"
proof -
  have 1: "sent (snd (get_weather_data net)) = sent net @ [url]"
    by (simp add: get_weather_data_cases)
  have 2: "url = base_url @ ''?'' @ urlencode params"
    by (simp add: url_def)
  have 3: "map fst params = [''latitude'', ''longitude'', ''current_weather'', ''hourly'']"
    "map_of params ''latitude'' = Some SKOLTECH_LATITUDE"
    "map_of params ''longitude'' = Some SKOLTECH_LONGITUDE"
    "map_of params ''current_weather'' = Some (Boolean True)"
    "py_str (Boolean True) = ''True''"
    by (simp_all add: params_def)
  have 4: "map_of params ''hourly'' = Some (Text (join '','' hourly_metrics))"
    unfolding hourly_metrics_value by (simp add: params_def)
  have 5: "length hourly_metrics = 6"
    unfolding hourly_metrics_value by simp
  show ?thesis
    by (intro conjI) (fact 1 2 3 4 5 hourly_metrics_value url_value)+
qed

text \<open>
  Claim C5 as stated fails on the count: the \<^verbatim>\<open>hourly\<close> parameter lists six metric
  names, not five.
\<close>

theorem six_hourly_metrics: "length hourly_metrics = 6 \<and> length hourly_metrics \<noteq> 5"
  by (simp add: hourly_metrics_value)

section \<open>The exported file\<close>

lemma map_fst_to_record: "map fst (to_record d) = column_labels"
  by (simp add: to_record_def column_labels_def)

lemma distinct_column_labels: "distinct column_labels"
  by (simp add: column_labels_def)

lemma length_column_labels: "length column_labels = 7"
  by (simp add: column_labels_def)

lemma fold_seen_known:
  "set ks \<subseteq> set seen \<Longrightarrow>
   fold (\<lambda>k seen. if k \<in> set seen then seen else seen @ [k]) ks seen = seen"
  by (induction ks) simp_all

lemma fold_seen_new:
  "distinct (seen @ ks) \<Longrightarrow>
   fold (\<lambda>k seen. if k \<in> set seen then seen else seen @ [k]) ks seen = seen @ ks"
  by (induction ks arbitrary: seen) simp_all

lemma first_seen_repeated:
  assumes "distinct ks" "set others \<subseteq> set ks"
  shows "first_seen (ks @ others) = ks"
  using assms by (simp add: first_seen_def fold_seen_new fold_seen_known)

lemma columns_DataFrame_empty: "DataFrame [] = \<lparr>columns = [], body = []\<rparr>"
  by (simp add: DataFrame_def first_seen_def)

lemma columns_DataFrame:
  assumes "ds \<noteq> []"
  shows "columns (DataFrame (map to_record ds)) = column_labels"
proof -
  obtain d rest where ds: "ds = d # rest" using assms by (cases ds) auto
  have "set (concat (map (map fst) (map to_record rest))) \<subseteq> set column_labels"
    by (auto simp: map_fst_to_record)
  then have "first_seen (column_labels @ concat (map (map fst) (map to_record rest))) = column_labels"
    using distinct_column_labels by (intro first_seen_repeated)
  then show ?thesis by (simp add: DataFrame_def ds map_fst_to_record Let_def)
qed

lemma length_body_DataFrame: "length (body (DataFrame rs)) = length rs"
  by (simp add: DataFrame_def Let_def)

lemma row_length_DataFrame:
  "r \<in> set (body (DataFrame rs)) \<Longrightarrow> length r = length (columns (DataFrame rs))"
  by (auto simp: DataFrame_def Let_def)

lemma sheet_row_append: "sheet_row i (a @ b) = sheet_row i a @ sheet_row i b"
  by (simp add: sheet_row_def)

lemma sheet_row_const:
  "sheet_row i (map (\<lambda>(j, v). (k, j, f v)) xs) = (if i = k then map (\<lambda>(j, v). f v) xs else [])"
  by (induction xs) (auto simp: sheet_row_def)

lemma map_enumerate_value: "map (\<lambda>(j, v). f v) (enumerate n r) = map f r"
  by (induction r arbitrary: n) simp_all

lemma sheet_row_one:
  "sheet_row i (map (\<lambda>(j, v). (k, j, f v)) (enumerate n r)) = (if i = k then map f r else [])"
  by (simp add: sheet_row_const map_enumerate_value)

lemma sheet_row_header:
  "sheet_row i (map (\<lambda>(j, c). (0, j, CStr c)) (enumerate n cols))
     = (if i = 0 then map CStr cols else [])"
  by (rule sheet_row_one)

lemma sheet_row_body:
  "sheet_row i (concat (map (\<lambda>(k, r). map (\<lambda>(j, v). (Suc k, j, f v)) (enumerate 0 r))
       (enumerate n rs)))
     = (if n < i \<and> i \<le> n + length rs then map f (rs ! (i - Suc n)) else [])"
proof (induction rs arbitrary: n)
  case Nil
  show ?case by (auto simp: sheet_row_def)
next
  case (Cons r rs)
  show ?case
    by (auto simp: sheet_row_append sheet_row_one Cons.IH Suc_diff_Suc nth_Cons')
qed

lemma sheet_row_to_excel:
  "sheet_row i (to_excel df)
     = (if i = 0 then map CStr (columns df)
        else if i \<le> length (body df)
          then map (\<lambda>v. case v of None \<Rightarrow> CEmpty | Some c \<Rightarrow> c) (body df ! (i - 1))
        else [])"
  by (simp add: to_excel_def sheet_row_append sheet_row_header sheet_row_body)

lemma length_decimal_4:
  assumes "1000 \<le> n" "n < 10000"
  shows "length (decimal n) = 4"
proof -
  have 1: "length (decimal k) = 1" if "k < 10" for k
    using that by (subst decimal.simps) simp
  have 2: "length (decimal k) = 2" if "10 \<le> k" "k < 100" for k
    using that 1[of "k div 10"] by (subst decimal.simps) simp
  have 3: "length (decimal k) = 3" if "100 \<le> k" "k < 1000" for k
    using that 2[of "k div 10"] by (subst decimal.simps) simp
  show ?thesis
    using assms 3[of "n div 10"] by (subst decimal.simps) simp
qed

lemma export_to_excel_unfold:
  "export_to_excel now w =
     (PyNone,
      w\<lparr>files := (files w)(export_filename now \<mapsto>
              to_excel (DataFrame (map to_record (most_recent 10 (table w))))),
        stdout := stdout w @ [Exported (export_filename now)]\<rparr>)"
  by (simp add: export_to_excel_def Let_def)

lemma sample_filename: "export_filename sample_time = ''weather_data_20240309_070502.xlsx''"
  by (simp add: export_filename_def strftime_def sample_time_def two_digits_def digit_def
      decimal.simps)

lemma most_recent_Nil: "most_recent n [] = []"
  by (simp add: most_recent_def limit_def order_by_timestamp_desc_def)

lemma length_most_recent: "length (most_recent n xs) = min n (length xs)"
  by (simp add: most_recent_def limit_def length_order_by min.commute)

text \<open>
  Claim C6, as amended.  The exporter writes the sheet to the file
  \<^verbatim>\<open>weather_data_<YYYYMMDD_HHMMSS>.xlsx\<close> named from the local time of the call (fifteen
  characters of date and time for a year of four digits), prints the confirmation with
  that name itself, and returns \<^verbatim>\<open>None\<close>; the command loop does nothing but call it.
\<close>

theorem export_names_file:
  "fst (export_to_excel now w) = PyNone
   \<and> files (snd (export_to_excel now w)) (export_filename now)
       = Some (to_excel (DataFrame (map to_record (most_recent 10 (table w)))))
   \<and> stdout (snd (export_to_excel now w)) = stdout w @ [Exported (export_filename now)]
   \<and> table (snd (export_to_excel now w)) = table w
   \<and> exit_status (snd (export_to_excel now w)) = exit_status w
   \<and> handle_command now ''export'' w = snd (export_to_excel now w)
   \<and> export_filename now
       = ''weather_data_'' @ decimal (year now) @ two_digits (month now) @ two_digits (day now)
         @ ''_'' @ two_digits (hour now) @ two_digits (minute now) @ two_digits (second now)
         @ ''.xlsx''
   \<and> (1000 \<le> year now \<and> year now < 10000 \<longrightarrow> length (strftime now) = 15)"
proof -
  have "lower ''export'' = ''export''"
    by (simp add: lower_def lower_char_def)
  then have h: "handle_command now ''export'' w = snd (export_to_excel now w)"
    by (simp add: handle_command_def)
  have l: "length (strftime now) = 15" if "1000 \<le> year now \<and> year now < 10000"
    using that by (simp add: strftime_def two_digits_def length_decimal_4)
  show ?thesis
    using h l by (simp add: export_to_excel_unfold export_filename_def strftime_def)
qed

theorem export_names_file_witness:
  "year sample_time = 2024
   \<and> export_filename sample_time = ''weather_data_20240309_070502.xlsx''
   \<and> length (strftime sample_time) = 15
   \<and> fst (export_to_excel sample_time empty_world) = PyNone
   \<and> stdout (snd (export_to_excel sample_time empty_world))
       = [Exported ''weather_data_20240309_070502.xlsx'']
   \<and> stdout (handle_command sample_time ''export'' empty_world)
       = [Exported ''weather_data_20240309_070502.xlsx'']"
proof -
  note t = export_names_file[of sample_time empty_world]
  have y: "year sample_time = 2024" by (simp add: sample_time_def)
  have 1: "length (strftime sample_time) = 15" using t y by simp
  have 2: "fst (export_to_excel sample_time empty_world) = PyNone" using t by simp
  have 3: "stdout (snd (export_to_excel sample_time empty_world))
       = [Exported ''weather_data_20240309_070502.xlsx'']"
    using t by (simp add: sample_filename empty_world_def)
  have 4: "stdout (handle_command sample_time ''export'' empty_world)
       = [Exported ''weather_data_20240309_070502.xlsx'']"
    using t 3 by simp
  from y sample_filename 1 2 3 4 show ?thesis by (intro conjI)
qed

text \<open>
  Claim C6 as stated fails: the exporter returns \<^verbatim>\<open>None\<close>, not the file name, and the
  only line printed is its own.
\<close>

theorem export_returns_none:
  "fst (export_to_excel sample_time empty_world) = PyNone
   \<and> fst (export_to_excel sample_time empty_world) \<noteq> PyStr (export_filename sample_time)
   \<and> stdout (handle_command sample_time ''export'' empty_world)
       = [Exported (export_filename sample_time)]"
  by (simp add: export_to_excel_unfold handle_command_def lower_def lower_char_def
      empty_world_def)

text \<open>
  Claim C2, as amended.  On an empty table the export still writes its file, and the
  sheet has no cell: no data row and no header row, since the columns of the frame are
  the keys of its records.  With at least one row the header row holds the seven
  labels, each of the rows below it (at most ten) has seven cells, and nothing follows.
\<close>

theorem export_header_from_rows:
  "(table w = [] \<longrightarrow>
      files (snd (export_to_excel now w)) (export_filename now) = Some [])
   \<and> (table w \<noteq> [] \<longrightarrow>
        (\<exists>sh. files (snd (export_to_excel now w)) (export_filename now) = Some sh
           \<and> sheet_row 0 sh = map CStr column_labels
           \<and> (\<forall>i. 1 \<le> i \<and> i \<le> min 10 (length (table w)) \<longrightarrow> length (sheet_row i sh) = 7)
           \<and> (\<forall>i. min 10 (length (table w)) < i \<longrightarrow> sheet_row i sh = [])))"
proof (intro conjI impI)
  assume "table w = []"
  then show "files (snd (export_to_excel now w)) (export_filename now) = Some []"
    by (simp add: export_to_excel_unfold most_recent_Nil columns_DataFrame_empty to_excel_def)
next
  assume ne: "table w \<noteq> []"
  define ds where "ds = most_recent 10 (table w)"
  define df where "df = DataFrame (map to_record ds)"
  have len: "length ds = min 10 (length (table w))"
    by (simp add: ds_def length_most_recent)
  moreover have "0 < length (table w)" using ne by simp
  ultimately have "0 < length ds" by simp
  then have "ds \<noteq> []" by auto
  then have cols: "columns df = column_labels"
    unfolding df_def by (rule columns_DataFrame)
  have lb: "length (body df) = min 10 (length (table w))"
    by (simp add: df_def length_body_DataFrame len)
  have 0: "sheet_row 0 (to_excel df) = map CStr column_labels"
    by (simp add: sheet_row_to_excel cols)
  have 1: "length (sheet_row i (to_excel df)) = 7"
    if "1 \<le> i \<and> i \<le> min 10 (length (table w))" for i
  proof -
    have "i - 1 < length (body df)" using that lb by linarith
    then have "body df ! (i - 1) \<in> set (body df)" by (rule nth_mem)
    then have "length (body df ! (i - 1)) = 7"
      unfolding df_def using cols
      by (simp add: row_length_DataFrame df_def length_column_labels)
    then show ?thesis using that lb by (simp add: sheet_row_to_excel)
  qed
  have 2: "sheet_row i (to_excel df) = []" if "min 10 (length (table w)) < i" for i
  proof -
    have "\<not> i \<le> length (body df)" "i \<noteq> 0" using that lb by linarith+
    then show ?thesis by (simp add: sheet_row_to_excel)
  qed
  have "files (snd (export_to_excel now w)) (export_filename now) = Some (to_excel df)"
    by (simp add: export_to_excel_unfold df_def ds_def)
  with 0 1 2 show "\<exists>sh. files (snd (export_to_excel now w)) (export_filename now) = Some sh
           \<and> sheet_row 0 sh = map CStr column_labels
           \<and> (\<forall>i. 1 \<le> i \<and> i \<le> min 10 (length (table w)) \<longrightarrow> length (sheet_row i sh) = 7)
           \<and> (\<forall>i. min 10 (length (table w)) < i \<longrightarrow> sheet_row i sh = [])"
    by blast
qed

theorem export_header_from_rows_witness:
  "table empty_world = []
   \<and> files (snd (export_to_excel sample_time empty_world)) ''weather_data_20240309_070502.xlsx''
       = Some []
   \<and> table (empty_world\<lparr>table := [sample_row 1 20]\<rparr>) \<noteq> []
   \<and> sheet_row 0 (the (files (snd (export_to_excel sample_time
          (empty_world\<lparr>table := [sample_row 1 20]\<rparr>))) ''weather_data_20240309_070502.xlsx''))
       = map CStr column_labels
   \<and> length (sheet_row 1 (the (files (snd (export_to_excel sample_time
          (empty_world\<lparr>table := [sample_row 1 20]\<rparr>))) ''weather_data_20240309_070502.xlsx'')))
       = 7"
proof -
  have e: "table empty_world = []" by (simp add: empty_world_def)
  have n: "table (empty_world\<lparr>table := [sample_row 1 20]\<rparr>) \<noteq> []" by simp
  have 1: "files (snd (export_to_excel sample_time empty_world))
      ''weather_data_20240309_070502.xlsx'' = Some []"
    using export_header_from_rows[of empty_world sample_time] e
    by (simp add: sample_filename)
  from export_header_from_rows[of "empty_world\<lparr>table := [sample_row 1 20]\<rparr>" sample_time] n
  obtain sh where sh:
    "files (snd (export_to_excel sample_time (empty_world\<lparr>table := [sample_row 1 20]\<rparr>)))
       (export_filename sample_time) = Some sh"
    "sheet_row 0 sh = map CStr column_labels"
    "\<forall>i. 1 \<le> i \<and> i \<le> min 10 (length (table (empty_world\<lparr>table := [sample_row 1 20]\<rparr>)))
       \<longrightarrow> length (sheet_row i sh) = 7"
    by blast
  from sh(3) have 7: "length (sheet_row 1 sh) = 7" by simp
  from sh(1) have "the (files (snd (export_to_excel sample_time
      (empty_world\<lparr>table := [sample_row 1 20]\<rparr>))) ''weather_data_20240309_070502.xlsx'') = sh"
    by (simp add: sample_filename)
  with e 1 n sh(2) 7 show ?thesis by simp
qed

text \<open>
  Claim C2 as stated fails: the file written from an empty table has an empty first
  row, not the seven labels.
\<close>

theorem export_empty_store_no_header:
  "files (snd (export_to_excel sample_time empty_world)) (export_filename sample_time) = Some []
   \<and> sheet_row 0 (the (files (snd (export_to_excel sample_time empty_world))
        (export_filename sample_time))) = []
   \<and> sheet_row 0 (the (files (snd (export_to_excel sample_time empty_world))
        (export_filename sample_time))) \<noteq> map CStr column_labels"
proof -
  have "files (snd (export_to_excel sample_time empty_world)) (export_filename sample_time)
      = Some []"
    by (simp add: export_to_excel_unfold empty_world_def most_recent_Nil
        columns_DataFrame_empty to_excel_def)
  moreover have "sheet_row 0 [] = []" by (simp add: sheet_row_def)
  moreover have "map CStr column_labels \<noteq> []" by (simp add: column_labels_def)
  ultimately show ?thesis by simp
qed

section \<open>The commands\<close>

lemma lower_examples:
  "lower ''EXPORT'' = ''export''" "lower ''ExIt'' = ''exit''" "lower ''quit'' = ''quit''"
  "lower ''export '' = ''export ''" "lower ''export'' = ''export''"
  by (simp_all add: lower_def lower_char_def)

text \<open>
  Claim C7, as amended.  The command loop compares the lower-cased line, as read and
  untrimmed, with \<^verbatim>\<open>export\<close> and \<^verbatim>\<open>exit\<close>.  A line that lower-cases to \<^verbatim>\<open>export\<close> does
  exactly what \<^verbatim>\<open>export\<close> does and leaves the process running; one that lower-cases to
  \<^verbatim>\<open>exit\<close> ends the process with status 0, and no later line is read; any other line
  prints the unknown-command message, changes nothing else, and the loop goes on.
\<close>

theorem command_dispatch:
  "(lower command = ''export'' \<longrightarrow>
      handle_command now command w = handle_command now ''export'' w
      \<and> handle_command now command w = snd (export_to_excel now w)
      \<and> exit_status (handle_command now command w) = exit_status w)
   \<and> (lower command = ''exit'' \<longrightarrow>
        handle_command now command w
          = w\<lparr>stdout := stdout w @ [Shutting_down], exit_status := Some 0\<rparr>
        \<and> command_loop ((now, command) # rest) w
          = w\<lparr>stdout := stdout w @ [Prompt, Shutting_down], exit_status := Some 0\<rparr>)
   \<and> (lower command \<noteq> ''export'' \<and> lower command \<noteq> ''exit'' \<longrightarrow>
        handle_command now command w = w\<lparr>stdout := stdout w @ [Unknown_command]\<rparr>
        \<and> exit_status (handle_command now command w) = exit_status w
        \<and> (exit_status w = None \<longrightarrow>
             command_loop ((now, command) # rest) w
               = command_loop rest (w\<lparr>stdout := stdout w @ [Prompt, Unknown_command]\<rparr>)))"
  by (simp add: handle_command_def lower_examples export_to_excel_unfold Let_def)

theorem command_dispatch_witness:
  "lower ''EXPORT'' = ''export''
   \<and> handle_command sample_time ''EXPORT'' empty_world
       = handle_command sample_time ''export'' empty_world
   \<and> lower ''ExIt'' = ''exit''
   \<and> exit_status (handle_command sample_time ''ExIt'' empty_world) = Some 0
   \<and> lower ''quit'' = ''quit''
   \<and> handle_command sample_time ''quit'' empty_world = empty_world\<lparr>stdout := [Unknown_command]\<rparr>
   \<and> exit_status (handle_command sample_time ''quit'' empty_world) = None"
proof -
  have 1: "handle_command sample_time ''EXPORT'' empty_world
       = handle_command sample_time ''export'' empty_world"
    using command_dispatch[of "''EXPORT''" sample_time empty_world] lower_examples(1) by blast
  have 2: "exit_status (handle_command sample_time ''ExIt'' empty_world) = Some 0"
    using command_dispatch[of "''ExIt''" sample_time empty_world] lower_examples(2) by simp
  have 3: "handle_command sample_time ''quit'' empty_world
      = empty_world\<lparr>stdout := [Unknown_command]\<rparr>"
    "exit_status (handle_command sample_time ''quit'' empty_world) = None"
    using command_dispatch[of "''quit''" sample_time empty_world] lower_examples(3)
    by (simp_all add: empty_world_def)
  from lower_examples(1,2,3) 1 2 3 show ?thesis by (intro conjI)
qed

text \<open>
  Claim C7 as stated fails on the trimming: \<^verbatim>\<open>export\<close> followed by a space trims to
  \<^verbatim>\<open>export\<close>, yet the loop answers it with the unknown-command message.
\<close>

theorem untrimmed_command_unknown:
  "strip ''export '' = ''export''
   \<and> lower (strip ''export '') = ''export''
   \<and> handle_command sample_time ''export '' empty_world
       = empty_world\<lparr>stdout := [Unknown_command]\<rparr>
   \<and> handle_command sample_time ''export '' empty_world
       \<noteq> handle_command sample_time ''export'' empty_world"
proof -
  have s: "strip ''export '' = ''export''"
    by (simp add: strip_def is_space_def)
  have u: "handle_command sample_time ''export '' empty_world
       = empty_world\<lparr>stdout := [Unknown_command]\<rparr>"
    by (simp add: handle_command_def lower_examples empty_world_def)
  have e: "stdout (handle_command sample_time ''export'' empty_world)
      = [Exported (export_filename sample_time)]"
    by (simp add: handle_command_def lower_examples export_to_excel_unfold empty_world_def)
  have x: "stdout (handle_command sample_time ''export '' empty_world) = [Unknown_command]"
    unfolding u by simp
  have "handle_command sample_time ''export '' empty_world
       \<noteq> handle_command sample_time ''export'' empty_world"
  proof
    assume "handle_command sample_time ''export '' empty_world
       = handle_command sample_time ''export'' empty_world"
    then have "[Unknown_command] = [Exported (export_filename sample_time)]"
      using e x by simp
    then show False by simp
  qed
  with s u show ?thesis by (simp add: lower_examples)
qed

section \<open>The range of the floats\<close>

text \<open>
  The rounding returns a number that rounds to itself, and the two float operations of
  the script on a finite float stay below the overflow bound: the model needs no
  infinity.
\<close>

lemma rnd_idem: "rnd (rnd x) = rnd x"
proof (cases "x = 0")
  case True
  then show ?thesis by (simp add: rnd_def)
next
  case False
  define q where "q = quantum x"
  define y where "y = x / 2 powi q"
  define n where "n = round_half_even y"
  have q: "- 1074 \<le> q" "expo x - 52 \<le> q" by (simp_all add: q_def quantum_def)
  have r: "rnd x = of_int n * 2 powi q"
    using False by (simp add: rnd_def n_def y_def q_def)
  have "\<bar>x\<bar> < 2 powi (expo x + 1)" using False by (rule expo_bounds(2))
  also have "\<dots> \<le> 2 powi (q + 53)" using q(2) by (intro power_int_increasing) simp_all
  also have "\<dots> = 2 ^ 53 * 2 powi q" by (simp add: power_int_add)
  finally have "\<bar>y\<bar> < 2 ^ 53"
    by (simp add: y_def abs_divide pos_divide_less_eq)
  moreover have "\<bar>of_int n - y\<bar> \<le> 1 / 2"
    unfolding n_def by (rule round_half_even_error)
  ultimately have "\<bar>of_int n :: rat\<bar> < 2 ^ 53 + 1" by linarith
  then have "(of_int \<bar>n\<bar> :: rat) < of_int (2 ^ 53 + 1)" by simp
  then have "\<bar>n\<bar> < 2 ^ 53 + 1" by (simp only: of_int_less_iff)
  then consider "\<bar>n\<bar> < 2 ^ 53" | "n = 2 ^ 53" | "n = - (2 ^ 53)" by linarith
  then have "rnd (of_int n * 2 powi q) = of_int n * 2 powi q"
  proof cases
    case 1
    then show ?thesis using q(1) by (intro rnd_exact[where m = n and e = q]) simp_all
  next
    case 2
    have "(of_int n :: rat) * 2 powi q = of_int (2 ^ 52) * 2 powi (q + 1)"
      by (simp add: 2 power_int_add)
    then show ?thesis
      using q(1) by (intro rnd_exact[where m = "2 ^ 52" and e = "q + 1"]) simp_all
  next
    case 3
    have "(of_int n :: rat) * 2 powi q = of_int (- (2 ^ 52)) * 2 powi (q + 1)"
      by (simp add: 3 power_int_add)
    then show ?thesis
      using q(1) by (intro rnd_exact[where m = "- (2 ^ 52)" and e = "q + 1"]) simp_all
  qed
  then show ?thesis by (simp add: r)
qed

lemma quantum_bounds:
  assumes "x \<noteq> 0" "\<bar>x\<bar> < 2 ^ 1024"
  shows "quantum x \<le> 971" and "expo x - 52 \<le> quantum x"
proof -
  have "\<bar>x\<bar> < 2 powi 1024" using assms(2) by simp
  then have "expo x < 1024" using assms(1) by (intro expo_less)
  then show "quantum x \<le> 971" "expo x - 52 \<le> quantum x" by (simp_all add: quantum_def)
qed

lemma double_bound:
  assumes "is_double d"
  shows "\<bar>d\<bar> \<le> 2 ^ 1024 - 2 ^ 971"
proof (cases "d = 0")
  case True
  have "(2::rat) ^ 971 \<le> 2 ^ 1024" by (rule power_increasing) simp_all
  then show ?thesis using True by simp
next
  case False
  have fixd: "rnd d = d" and fin: "\<bar>d\<bar> < 2 ^ 1024"
    using assms by (simp_all add: is_double_def)
  define q where "q = quantum d"
  define n where "n = round_half_even (d / 2 powi q)"
  have q: "q \<le> 971" "expo d - 52 \<le> q"
    using quantum_bounds[OF False fin] by (simp_all add: q_def)
  have d: "d = of_int n * 2 powi q"
    using fixd False by (simp add: rnd_def n_def q_def)
  have "\<bar>d\<bar> < 2 powi (expo d + 1)" using False by (rule expo_bounds(2))
  also have "\<dots> \<le> 2 powi (q + 53)" using q(2) by (intro power_int_increasing) simp_all
  also have "\<dots> = 2 ^ 53 * 2 powi q" by (simp add: power_int_add)
  finally have "\<bar>of_int n :: rat\<bar> * 2 powi q < 2 ^ 53 * 2 powi q"
    by (simp add: d abs_mult)
  then have "\<bar>of_int n :: rat\<bar> < 2 ^ 53" by simp
  then have "(of_int \<bar>n\<bar> :: rat) < of_int (2 ^ 53)" by simp
  then have "\<bar>n\<bar> < 2 ^ 53" by (simp only: of_int_less_iff)
  then have "\<bar>n\<bar> \<le> 2 ^ 53 - 1" by simp
  then have "(of_int \<bar>n\<bar> :: rat) \<le> of_int (2 ^ 53 - 1)" by (simp only: of_int_le_iff)
  then have n: "\<bar>of_int n :: rat\<bar> \<le> 2 ^ 53 - 1" by simp
  have "(2::rat) powi q \<le> 2 powi 971" using q(1) by (intro power_int_increasing) simp_all
  then have p: "(2::rat) powi q \<le> 2 ^ 971" by simp
  have "\<bar>d\<bar> = \<bar>of_int n :: rat\<bar> * 2 powi q" by (simp add: d abs_mult)
  also have "\<dots> \<le> (2 ^ 53 - 1) * 2 ^ 971"
    using n p by (intro mult_mono) simp_all
  also have "\<dots> = 2 ^ (53 + 971) - 2 ^ 971"
    by (simp only: power_add left_diff_distrib mult_1)
  finally show ?thesis by simp
qed

lemma rnd_finite:
  assumes "\<bar>x\<bar> \<le> 2 ^ 1024 - 2 ^ 971 + 2 ^ 969"
  shows "\<bar>rnd x\<bar> < 2 ^ 1024"
proof (cases "x = 0")
  case True
  then show ?thesis by (simp add: rnd_def)
next
  case False
  have a: "(2::rat) ^ 971 = 4 * 2 ^ 969" "(2::rat) ^ 970 = 2 * 2 ^ 969"
    by (simp_all flip: power_add add: power_add[of 2 2 969, simplified] power_add[of 2 1 969, simplified])
  have pos: "(0::rat) < 2 ^ 969" by simp
  have "\<bar>x\<bar> < 2 ^ 1024" using assms a pos by linarith
  then have "quantum x \<le> 971" using False by (intro quantum_bounds(1))
  then have "(2::rat) powi quantum x \<le> 2 powi 971" by (intro power_int_increasing) simp_all
  then have "(2::rat) powi quantum x / 2 \<le> 2 ^ 970"
    using a by simp
  then have "\<bar>rnd x - x\<bar> \<le> 2 ^ 970" using rnd_error[OF False] by linarith
  then have "\<bar>rnd x\<bar> \<le> \<bar>x\<bar> + 2 ^ 970" by linarith
  then show ?thesis using assms a pos by linarith
qed

lemma float_add_finite:
  assumes "is_double d"
  shows "\<bar>float_add d (45 / 2)\<bar> < 2 ^ 1024"
proof -
  have "(45 / 2 :: rat) \<le> 2 ^ 5" by simp
  also have "(2::rat) ^ 5 \<le> 2 ^ 969" by (rule power_increasing) simp_all
  finally have "\<bar>d + 45 / 2\<bar> \<le> 2 ^ 1024 - 2 ^ 971 + 2 ^ 969"
    using double_bound[OF assms] by linarith
  then show ?thesis unfolding float_add_def by (rule rnd_finite)
qed

lemma float_mul_finite:
  assumes "is_double p"
  shows "\<bar>float_mul p hPa_to_mmHg\<bar> < 2 ^ 1024"
proof -
  have c: "0 \<le> hPa_to_mmHg" "hPa_to_mmHg \<le> 1" by (simp_all add: hPa_to_mmHg_value)
  have "\<bar>p * hPa_to_mmHg\<bar> = \<bar>p\<bar> * hPa_to_mmHg" using c by (simp add: abs_mult)
  also have "\<dots> \<le> \<bar>p\<bar> * 1" using c by (intro mult_left_mono) simp_all
  finally have "\<bar>p * hPa_to_mmHg\<bar> \<le> 2 ^ 1024 - 2 ^ 971 + 2 ^ 969"
    using double_bound[OF assms] by simp
  then show ?thesis unfolding float_mul_def by (rule rnd_finite)
qed

end
